theory Spec2Isabelle
  imports Main
begin

section \<open>Strings and numbers of the host language\<close>

text \<open>
  Strings are modelled as lists of bytes holding the UTF-8 encoding of the source's
  strings. A draft position is a JavaScript number in the source and an \<open>int\<close> here.
  The two agree on the safe integers (absolute value at most \<open>2 ^ 53 - 1\<close>): a number
  holds them exactly, \<open>parseInt\<close> reads them exactly and a template literal prints them
  in plain decimal. Beyond them a number is rounded, and from \<open>10 ^ 21\<close> on it is
  printed with an exponent, which \<open>parseInt\<close> and \<open>numberToString\<close> below do not
  follow. The statements that read or print a draft position are therefore made for
  safe integers (\<open>isSafeInteger\<close>).
\<close>

definition hexDigit :: "nat \<Rightarrow> char" where
  "hexDigit n = ''0123456789ABCDEF'' ! (n mod 16)"

definition uriUnreserved :: "char \<Rightarrow> bool" where
  \<comment> \<open>The characters \<open>encodeURIComponent\<close> leaves alone: letters, digits and \<open>- _ . ! ~ * ' ( )\<close>.\<close>
  "uriUnreserved c =
     (let n = (of_char c :: nat) in
        (65 \<le> n \<and> n \<le> 90) \<or> (97 \<le> n \<and> n \<le> 122) \<or> (48 \<le> n \<and> n \<le> 57) \<or>
        n \<in> set [45, 95, 46, 33, 126, 42, 39, 40, 41])"

definition encodeByte :: "char \<Rightarrow> string" where
  "encodeByte c =
     (if uriUnreserved c then [c]
      else [CHR ''%'', hexDigit ((of_char c :: nat) div 16), hexDigit ((of_char c :: nat) mod 16)])"

definition encodeURIComponent :: "string \<Rightarrow> string" where
  \<comment> \<open>Every byte of the UTF-8 encoding that is not unreserved becomes \<open>%XX\<close>.\<close>
  "encodeURIComponent s = concat (map encodeByte s)"

fun showNat :: "nat \<Rightarrow> string" where
  "showNat n = (if n < 10 then [hexDigit n] else showNat (n div 10) @ [hexDigit (n mod 10)])"

declare showNat.simps [simp del]

definition numberToString :: "int \<Rightarrow> string" where
  \<comment> \<open>The template literal \<open>${n}\<close> for a safe integer \<open>n\<close>: its decimal digits, after
      a minus sign when it is negative.\<close>
  "numberToString i = (if i < 0 then CHR ''-'' # showNat (nat (- i)) else showNat (nat i))"

definition wsPrefix :: "string \<Rightarrow> nat" where
  \<comment> \<open>Length in bytes of a white space or line terminator character at the head of
      the string (0 when there is none): TAB, LF, VT, FF, CR, SP, U+00A0, U+1680,
      U+2000 to U+200A, U+2028, U+2029, U+202F, U+205F, U+3000, U+FEFF.\<close>
  "wsPrefix s =
     (let b = map (of_char :: char \<Rightarrow> nat) (take 3 s) in
      case b of
        [] \<Rightarrow> 0
      | b0 # r \<Rightarrow>
          if b0 \<in> set [9, 10, 11, 12, 13, 32] then 1
          else (case r of
                  [] \<Rightarrow> 0
                | b1 # r' \<Rightarrow>
                    if b0 = 194 \<and> b1 = 160 then 2
                    else (case r' of
                            [] \<Rightarrow> 0
                          | b2 # _ \<Rightarrow>
                              if (b0 = 225 \<and> b1 = 154 \<and> b2 = 128)
                                 \<or> (b0 = 226 \<and> b1 = 128 \<and> 128 \<le> b2 \<and> b2 \<le> 138)
                                 \<or> (b0 = 226 \<and> b1 = 128 \<and> b2 \<in> set [168, 169, 175])
                                 \<or> (b0 = 226 \<and> b1 = 129 \<and> b2 = 159)
                                 \<or> (b0 = 227 \<and> b1 = 128 \<and> b2 = 128)
                                 \<or> (b0 = 239 \<and> b1 = 187 \<and> b2 = 191)
                              then 3 else 0)))"

function trimStart :: "string \<Rightarrow> string" where
  "trimStart s =
     (let k = wsPrefix s in if 0 < k \<and> k \<le> length s then trimStart (drop k s) else s)"
  by pat_completeness auto
termination
  by (relation "measure length") auto

declare trimStart.simps [simp del]

definition digitValue :: "char \<Rightarrow> nat" where
  \<comment> \<open>Value of a character as a digit; 99 when it is no digit of any radix up to 16.\<close>
  "digitValue c =
     (let n = (of_char c :: nat) in
      if 48 \<le> n \<and> n \<le> 57 then n - 48
      else if 97 \<le> n \<and> n \<le> 102 then n - 87
      else if 65 \<le> n \<and> n \<le> 70 then n - 55
      else 99)"

definition parseInt :: "string \<Rightarrow> int option" where
  \<comment> \<open>\<open>parseInt(str)\<close> with no radix argument: the integer that the longest prefix
      of digits denotes, which is the value of the call when it is a safe integer;
      \<open>None\<close> stands for NaN.\<close>
  "parseInt str =
     (let s = trimStart str;
          neg = (take 1 s = ''-'');
          s1 = (if take 1 s = ''+'' \<or> take 1 s = ''-'' then drop 1 s else s);
          hex = (take 2 s1 = ''0x'' \<or> take 2 s1 = ''0X'');
          R = (if hex then 16 else 10);
          s2 = (if hex then drop 2 s1 else s1);
          ds = takeWhile (\<lambda>c. digitValue c < R) s2
      in if ds = [] then None
         else Some ((if neg then - 1 else 1) * int (foldl (\<lambda>a c. a * R + digitValue c) 0 ds)))"

definition isSafeInteger :: "int \<Rightarrow> bool" where
  \<comment> \<open>\<open>Number.isSafeInteger\<close>: the absolute value is at most \<open>2 ^ 53 - 1\<close>.\<close>
  "isSafeInteger n = (- 9007199254740991 \<le> n \<and> n \<le> 9007199254740991)"

definition safeNumber :: "int option \<Rightarrow> bool" where
  \<comment> \<open>A result of \<open>parseInt\<close> that the model holds exactly: NaN or a safe integer.\<close>
  "safeNumber x = (case x of None \<Rightarrow> True | Some n \<Rightarrow> isSafeInteger n)"

section \<open>Sockets, messages and effects\<close>

type_synonym addr = nat

text \<open>
  The ready states of a WebSocket object of the \<open>ws\<close> library. Of the library the
  model keeps what the proxy relies on: a socket is created connecting, \<open>close\<close>
  makes a socket that is not closed closing, and the events \<open>open\<close>, \<open>message\<close>,
  \<open>error\<close> and \<open>close\<close> are delivered one at a time, each handler running to its end.
\<close>

datatype readyState = CONNECTING | OPEN | CLOSING | CLOSED

text \<open>
  The frames the proxy sends downstream: the object literals of type
  \<open>ProxyMessage\<close> that the source builds, one constructor per \<open>type\<close> tag with the
  fields the literal sets. \<open>JSON.stringify\<close> of the literal is not modelled further.
\<close>

datatype ProxyMessage =
    room_joined string bool nat int
      \<comment> \<open>\<open>roomId\<close>, \<open>yahooConnected\<close>, \<open>clientsCount\<close>, \<open>draftPosition\<close>\<close>
  | yahoo_connected string
  | yahoo_message string
  | yahoo_disconnected nat string
  | yahoo_error string

record ReconnectData =
  rd_leagueId :: string
  rd_draftPosition :: int

text \<open>
  What \<open>JSON.parse\<close> makes of an inbound downstream frame, by the branch the
  message handler takes: a \<open>yahoo_message\<close>, a \<open>yahoo_reconnect\<close>, an object with
  another \<open>type\<close>, or text that is not JSON (kept raw). The \<open>data\<close> of a
  \<open>yahoo_reconnect\<close> is taken to be what the interface \<open>ReconnectData\<close> declares, with
  an integer \<open>draftPosition\<close>.
\<close>

datatype ClientMessage =
    YahooMessage string
  | YahooReconnect ReconnectData
  | OtherControl
  | NotJson string

text \<open>
  The calls the proxy makes on sockets, in the order it makes them: dialing an
  upstream link (\<open>new WebSocket(url, ...)\<close>), \<open>send\<close> and \<open>close\<close> on an upstream
  link, \<open>send\<close> and \<open>close\<close> on a downstream socket.
\<close>

datatype effect =
    Dial addr string
  | UpSend addr string
  | UpClose addr nat string
  | DownSend addr ProxyMessage
  | DownClose addr nat string

datatype error =
    LeagueMismatch string string
      \<comment> \<open>\<open>League ID mismatch: expected ..., got ...\<close>\<close>
  | ConstructorError string
      \<comment> \<open>the exception of \<open>new WebSocket(url)\<close> for a URL it refuses\<close>

section \<open>Rooms and the process state\<close>

record Room =
  roomId :: string
  leagueId :: string
  draftPosition :: int
  yahooWebSocketUrl :: string
  platformUserId :: string
  yahooWs :: "addr option"
  clients :: "(addr \<times> string \<times> int) list"
  isConnectingToYahoo :: bool
  lastHeartbeat :: nat
  reconnectAttempts :: nat
  maxReconnectAttempts :: int
  heartbeatInterval :: "nat option"
  connectionTimeout :: int
  isIntentionalDisconnect :: bool
  hasJoined :: bool
  cleanupTimeout :: "nat option"

text \<open>
  \<open>clients\<close> is the insertion-ordered \<open>Map\<close> from a downstream socket to its
  \<open>clientId\<close> and \<open>draftPosition\<close>. The logger is left out: it changes no state.
\<close>

record Config =
  cfg_maxReconnectAttempts :: "int option"
  cfg_connectionTimeout :: "int option"

text \<open>
  The state of the process. \<open>rooms\<close> and \<open>clientConnections\<close> are the two
  module-level maps. Room objects live in \<open>roomHeap\<close> and are named by reference;
  \<open>upstream\<close> and \<open>downstream\<close> hold the ready state of every socket; \<open>owner\<close> is
  the Room whose handlers \<open>connectToYahoo\<close> attached to a link; \<open>session\<close> holds the
  variables \<open>clientId\<close> and \<open>room\<close> that the handlers of a downstream socket close
  over; \<open>timeouts\<close> and \<open>intervals\<close> are the pending timers of the runtime, a
  timeout with the time it is due; \<open>clock\<close> is \<open>Date.now()\<close> in milliseconds;
  \<open>trace\<close> lists the socket calls made so far, oldest first.
\<close>

record World =
  rooms :: "string \<rightharpoonup> addr"
  clientConnections :: "string \<rightharpoonup> (addr \<times> addr)"
  roomHeap :: "addr \<Rightarrow> Room"
  upstream :: "addr \<Rightarrow> readyState"
  owner :: "addr \<Rightarrow> addr"
  downstream :: "addr \<Rightarrow> readyState"
  session :: "addr \<rightharpoonup> (string \<times> addr)"
  timeouts :: "nat \<rightharpoonup> (nat \<times> addr)"
  intervals :: "nat \<rightharpoonup> addr"
  nextRoom :: addr
  nextLink :: addr
  nextTimer :: nat
  clock :: nat
  config :: Config
  trace :: "effect list"

definition updRoom :: "addr \<Rightarrow> (Room \<Rightarrow> Room) \<Rightarrow> World \<Rightarrow> World" where
  "updRoom r f s = s\<lparr>roomHeap := (roomHeap s)(r := f (roomHeap s r))\<rparr>"

definition emit :: "effect \<Rightarrow> World \<Rightarrow> World" where
  "emit e s = s\<lparr>trace := trace s @ [e]\<rparr>"

definition afterClose :: "readyState \<Rightarrow> readyState" where
  \<comment> \<open>\<open>close()\<close> of the library: nothing on a closed socket, otherwise the socket is closing.\<close>
  "afterClose st = (if st = CLOSED then CLOSED else CLOSING)"

definition closeLink :: "addr \<Rightarrow> nat \<Rightarrow> string \<Rightarrow> World \<Rightarrow> World" where
  "closeLink l code reason s =
     emit (UpClose l code reason) (s\<lparr>upstream := (upstream s)(l := afterClose (upstream s l))\<rparr>)"

definition closeClient :: "addr \<Rightarrow> nat \<Rightarrow> string \<Rightarrow> World \<Rightarrow> World" where
  "closeClient ws code reason s =
     emit (DownClose ws code reason)
       (s\<lparr>downstream := (downstream s)(ws := afterClose (downstream s ws))\<rparr>)"

definition linkOpen :: "addr \<Rightarrow> World \<Rightarrow> bool" where
  \<comment> \<open>\<open>this.yahooWs && this.yahooWs.readyState === WebSocket.OPEN\<close> as a condition\<close>
  "linkOpen r s = (case yahooWs (roomHeap s r) of None \<Rightarrow> False | Some l \<Rightarrow> upstream s l = OPEN)"

section \<open>The Room's operations\<close>

definition newRoom :: "string \<Rightarrow> int \<Rightarrow> string \<Rightarrow> string \<Rightarrow> int \<Rightarrow> int \<Rightarrow> nat \<Rightarrow> Room" where
  "newRoom lid dp url uid maxAttempts timeout now =
     \<lparr>roomId = lid, leagueId = lid, draftPosition = dp, yahooWebSocketUrl = url,
      platformUserId = uid, yahooWs = None, clients = [], isConnectingToYahoo = False,
      lastHeartbeat = now, reconnectAttempts = 0, maxReconnectAttempts = maxAttempts,
      heartbeatInterval = None, connectionTimeout = timeout,
      isIntentionalDisconnect = False, hasJoined = False, cleanupTimeout = None\<rparr>"

definition connectToYahoo :: "(string \<Rightarrow> bool) \<Rightarrow> addr \<Rightarrow> World \<Rightarrow> World \<times> error option" where
  \<comment> \<open>\<open>ctor url\<close> says whether \<open>new WebSocket(url, ...)\<close> returns (it throws on a URL it
      refuses). The second component is the exception the promise is rejected with.\<close>
  "connectToYahoo ctor r s =
     (let rm = roomHeap s r in
      if isConnectingToYahoo rm \<or> linkOpen r s then (s, None)
      else if ctor (yahooWebSocketUrl rm) then
        (let l = nextLink s in
           (emit (Dial l (yahooWebSocketUrl rm))
              (s\<lparr>roomHeap := (roomHeap s)(r := rm\<lparr>isConnectingToYahoo := True, yahooWs := Some l\<rparr>),
                 upstream := (upstream s)(l := CONNECTING),
                 owner := (owner s)(l := r),
                 nextLink := Suc l\<rparr>), None))
      else (updRoom r (\<lambda>rm. rm\<lparr>isConnectingToYahoo := False\<rparr>)
              (updRoom r (\<lambda>rm. rm\<lparr>isConnectingToYahoo := True\<rparr>) s),
            Some (ConstructorError (yahooWebSocketUrl rm))))"

definition userAgent :: "string \<Rightarrow> string" where
  "userAgent uid = ''YahooFantasyProxy/1.0 ('' @ uid @ '')''"

definition joinMessage :: "Room \<Rightarrow> string" where
  "joinMessage rm =
     ''8|'' @ leagueId rm @ ''|'' @ numberToString (draftPosition rm) @ ''|''
       @ encodeURIComponent (userAgent (platformUserId rm)) @ ''|''"

definition sendJoinMessageToYahoo :: "addr \<Rightarrow> World \<Rightarrow> World" where
  "sendJoinMessageToYahoo r s =
     (case yahooWs (roomHeap s r) of
        None \<Rightarrow> s
      | Some l \<Rightarrow>
          if upstream s l = OPEN \<and> \<not> hasJoined (roomHeap s r)
          then updRoom r (\<lambda>rm. rm\<lparr>hasJoined := True\<rparr>) (emit (UpSend l (joinMessage (roomHeap s r))) s)
          else s)"

definition startHeartbeat :: "addr \<Rightarrow> World \<Rightarrow> World" where
  "startHeartbeat r s =
     (let t = nextTimer s in
        updRoom r (\<lambda>rm. rm\<lparr>heartbeatInterval := Some t\<rparr>)
          (s\<lparr>intervals := (intervals s)(t \<mapsto> r), nextTimer := Suc t\<rparr>))"

definition stopHeartbeat :: "addr \<Rightarrow> World \<Rightarrow> World" where
  "stopHeartbeat r s =
     (case heartbeatInterval (roomHeap s r) of
        None \<Rightarrow> s
      | Some t \<Rightarrow>
          updRoom r (\<lambda>rm. rm\<lparr>heartbeatInterval := None\<rparr>) (s\<lparr>intervals := (intervals s)(t := None)\<rparr>))"

definition heartbeatTick :: "addr \<Rightarrow> World \<Rightarrow> World" where
  "heartbeatTick r s =
     (case yahooWs (roomHeap s r) of
        None \<Rightarrow> s
      | Some l \<Rightarrow>
          if upstream s l = OPEN
          then updRoom r (\<lambda>rm. rm\<lparr>lastHeartbeat := clock s\<rparr>) (emit (UpSend l ''c'') s)
          else s)"

definition sendIfOpen :: "ProxyMessage \<Rightarrow> World \<Rightarrow> addr \<times> string \<times> int \<Rightarrow> World" where
  "sendIfOpen m s c = (if downstream s (fst c) = OPEN then emit (DownSend (fst c) m) s else s)"

definition broadcastToClients :: "addr \<Rightarrow> ProxyMessage \<Rightarrow> World \<Rightarrow> World" where
  "broadcastToClients r m s = foldl (sendIfOpen m) s (clients (roomHeap s r))"

definition sendToYahoo :: "addr \<Rightarrow> string \<Rightarrow> World \<Rightarrow> World" where
  "sendToYahoo r message s =
     (case yahooWs (roomHeap s r) of
        None \<Rightarrow> s
      | Some l \<Rightarrow> if upstream s l = OPEN then emit (UpSend l message) s else s)"

definition dropLink :: "string \<Rightarrow> addr \<Rightarrow> World \<Rightarrow> World" where
  \<comment> \<open>\<open>if (this.yahooWs) { this.isIntentionalDisconnect = true;
      this.yahooWs.close(1000, reason); this.yahooWs = null; }\<close>\<close>
  "dropLink reason r s =
     (case yahooWs (roomHeap s r) of
        None \<Rightarrow> s
      | Some l \<Rightarrow>
          updRoom r (\<lambda>rm. rm\<lparr>yahooWs := None\<rparr>)
            (closeLink l 1000 reason
               (updRoom r (\<lambda>rm. rm\<lparr>isIntentionalDisconnect := True\<rparr>) s)))"

definition resetConnectionState :: "addr \<Rightarrow> World \<Rightarrow> World" where
  "resetConnectionState r s =
     updRoom r (\<lambda>rm. rm\<lparr>isIntentionalDisconnect := False, hasJoined := False\<rparr>) s"

definition handleClientReconnectRequest ::
  "(string \<Rightarrow> bool) \<Rightarrow> addr \<Rightarrow> ReconnectData \<Rightarrow> World \<Rightarrow> World \<times> error option" where
  "handleClientReconnectRequest ctor r reconnectData s =
     (if rd_leagueId reconnectData \<noteq> leagueId (roomHeap s r)
      then (s, Some (LeagueMismatch (leagueId (roomHeap s r)) (rd_leagueId reconnectData)))
      else
        (let s1 = (if rd_draftPosition reconnectData \<noteq> draftPosition (roomHeap s r)
                   then updRoom r (\<lambda>rm. rm\<lparr>draftPosition := rd_draftPosition reconnectData\<rparr>) s
                   else s);
             s2 = dropLink ''Client-initiated reconnection'' r s1;
             s3 = resetConnectionState r s2
         in connectToYahoo ctor r s3))"

fun mapSet :: "'k \<Rightarrow> 'v \<Rightarrow> ('k \<times> 'v) list \<Rightarrow> ('k \<times> 'v) list" where
  \<comment> \<open>\<open>Map.set\<close>: a key that is present keeps its place, a new key goes last.\<close>
  "mapSet k v [] = [(k, v)]"
| "mapSet k v (kv # kvs) = (if fst kv = k then (k, v) # kvs else kv # mapSet k v kvs)"

definition mapDelete :: "'k \<Rightarrow> ('k \<times> 'v) list \<Rightarrow> ('k \<times> 'v) list" where
  "mapDelete k kvs = filter (\<lambda>kv. fst kv \<noteq> k) kvs"

definition cancelCleanup :: "addr \<Rightarrow> World \<Rightarrow> World" where
  \<comment> \<open>\<open>if (this.cleanupTimeout) { clearTimeout(this.cleanupTimeout); this.cleanupTimeout = null; }\<close>\<close>
  "cancelCleanup r s =
     (case cleanupTimeout (roomHeap s r) of
        None \<Rightarrow> s
      | Some t \<Rightarrow>
          updRoom r (\<lambda>rm. rm\<lparr>cleanupTimeout := None\<rparr>) (s\<lparr>timeouts := (timeouts s)(t := None)\<rparr>))"

definition forceReinit :: "addr \<Rightarrow> World \<Rightarrow> World" where
  "forceReinit r s =
     (if 0 < length (clients (roomHeap s r)) \<or> linkOpen r s
      then resetConnectionState r (dropLink ''New client joined - forcing reconnection'' r s)
      else s)"

definition beforeConnect :: "addr \<Rightarrow> addr \<Rightarrow> string \<Rightarrow> int \<Rightarrow> World \<Rightarrow> World" where
  \<comment> \<open>\<open>addClient\<close> up to the call of \<open>connectToYahoo\<close>. The three properties it sets on
      the socket object are never read and are left out.\<close>
  "beforeConnect r clientWs clientId clientDraftPosition s =
     updRoom r (\<lambda>rm. rm\<lparr>clients := mapSet clientWs (clientId, clientDraftPosition) (clients rm)\<rparr>)
       (forceReinit r (cancelCleanup r s))"

definition addClient :: "(string \<Rightarrow> bool) \<Rightarrow> addr \<Rightarrow> addr \<Rightarrow> string \<Rightarrow> int \<Rightarrow> World \<Rightarrow> World" where
  \<comment> \<open>The promise of \<open>connectToYahoo\<close> is dropped, so its rejection is too.\<close>
  "addClient ctor r clientWs clientId clientDraftPosition s =
     (let s1 = fst (connectToYahoo ctor r (beforeConnect r clientWs clientId clientDraftPosition s))
      in emit (DownSend clientWs
                 (room_joined (roomId (roomHeap s1 r)) False (length (clients (roomHeap s1 r)))
                    clientDraftPosition)) s1)"

definition removeClient :: "addr \<Rightarrow> addr \<Rightarrow> World \<Rightarrow> World" where
  "removeClient r clientWs s =
     (let s1 = updRoom r (\<lambda>rm. rm\<lparr>clients := mapDelete clientWs (clients rm)\<rparr>) s in
      if length (clients (roomHeap s1 r)) = 0 then
        (let s2 = (case cleanupTimeout (roomHeap s1 r) of
                     None \<Rightarrow> s1
                   | Some t \<Rightarrow> s1\<lparr>timeouts := (timeouts s1)(t := None)\<rparr>);
             t' = nextTimer s2
         in updRoom r (\<lambda>rm. rm\<lparr>cleanupTimeout := Some t'\<rparr>)
              (s2\<lparr>timeouts := (timeouts s2)(t' \<mapsto> (clock s2 + 2000, r)), nextTimer := Suc t'\<rparr>))
      else s1)"

definition disconnectFromYahoo :: "addr \<Rightarrow> World \<Rightarrow> World" where
  "disconnectFromYahoo r s =
     (let s1 = updRoom r (\<lambda>rm. rm\<lparr>isIntentionalDisconnect := True, hasJoined := False\<rparr>) s in
      case yahooWs (roomHeap s1 r) of
        None \<Rightarrow> s1
      | Some l \<Rightarrow> closeLink l 1000 ''No clients remaining in room'' s1)"

definition cleanup :: "addr \<Rightarrow> World \<Rightarrow> World" where
  "cleanup r s =
     (let s1 = updRoom r (\<lambda>rm. rm\<lparr>isIntentionalDisconnect := True, hasJoined := False\<rparr>) s;
          s2 = cancelCleanup r (stopHeartbeat r s1);
          s3 = (case yahooWs (roomHeap s2 r) of
                  None \<Rightarrow> s2
                | Some l \<Rightarrow> updRoom r (\<lambda>rm. rm\<lparr>yahooWs := None\<rparr>) (closeLink l 1000 ''Room cleanup'' s2))
      in updRoom r (\<lambda>rm. rm\<lparr>clients := []\<rparr>) s3)"

definition cleanupTimerCallback :: "addr \<Rightarrow> World \<Rightarrow> World" where
  \<comment> \<open>The callback that \<open>removeClient\<close> hands to \<open>setTimeout\<close>.\<close>
  "cleanupTimerCallback r s =
     (let s1 = cleanup r (disconnectFromYahoo r s)
      in s1\<lparr>rooms := (rooms s1)(roomId (roomHeap s1 r) := None)\<rparr>)"

text \<open>
  \<open>getStatus\<close>. The value of \<open>this.yahooWs && this.yahooWs.readyState === WebSocket.OPEN\<close>
  is the left operand when that is \<open>null\<close>, and the comparison otherwise.
\<close>

datatype jsvalue = JSNull | JSBool bool

record RoomStatus =
  st_roomId :: string
  st_leagueId :: string
  st_draftPosition :: int
  st_platformUserId :: string
  st_clientsCount :: nat
  st_clientDraftPositions :: "int list"
  st_yahooConnected :: jsvalue
  st_hasJoined :: bool
  st_lastHeartbeat :: nat
  st_reconnectAttempts :: nat
  st_isIntentionalDisconnect :: bool

definition getStatus :: "addr \<Rightarrow> World \<Rightarrow> RoomStatus" where
  "getStatus r s =
     (let rm = roomHeap s r in
      \<lparr>st_roomId = roomId rm, st_leagueId = leagueId rm, st_draftPosition = draftPosition rm,
       st_platformUserId = platformUserId rm, st_clientsCount = length (clients rm),
       st_clientDraftPositions = map (\<lambda>c. snd (snd c)) (clients rm),
       st_yahooConnected =
         (case yahooWs rm of None \<Rightarrow> JSNull | Some l \<Rightarrow> JSBool (upstream s l = OPEN)),
       st_hasJoined = hasJoined rm, st_lastHeartbeat = lastHeartbeat rm,
       st_reconnectAttempts = reconnectAttempts rm,
       st_isIntentionalDisconnect = isIntentionalDisconnect rm\<rparr>)"

section \<open>The application: routes and the connection handler\<close>

definition getRoomStatus :: "string \<Rightarrow> World \<Rightarrow> nat + RoomStatus" where
  \<comment> \<open>\<open>GET /rooms/:roomId/status\<close>; \<open>Inl 404\<close> when there is no such room.\<close>
  "getRoomStatus rid s = (case rooms s rid of None \<Rightarrow> Inl 404 | Some r \<Rightarrow> Inr (getStatus r s))"

definition closeIfOpen :: "World \<Rightarrow> addr \<times> string \<times> int \<Rightarrow> World" where
  "closeIfOpen s c =
     (if downstream s (fst c) = OPEN then closeClient (fst c) 1001 ''Room force cleanup'' s else s)"

definition deleteRoom :: "string \<Rightarrow> World \<Rightarrow> World \<times> nat" where
  \<comment> \<open>\<open>DELETE /rooms/:roomId\<close>, with the status of the response.\<close>
  "deleteRoom rid s =
     (case rooms s rid of
        None \<Rightarrow> (s, 404)
      | Some r \<Rightarrow>
          (let s1 = cleanup r (foldl closeIfOpen s (clients (roomHeap s r)))
           in (s1\<lparr>rooms := (rooms s1)(rid := None)\<rparr>, 200)))"

record ConnParams =
  q_leagueId :: "string option"
  q_draftPosition :: "string option"
  q_websocketUrl :: "string option"
  q_platformUserId :: "string option"

definition strOr :: "string option \<Rightarrow> string \<Rightarrow> string" where
  \<comment> \<open>\<open>x || d\<close> for a string or \<open>null\<close>\<close>
  "strOr x d = (case x of None \<Rightarrow> d | Some v \<Rightarrow> if v = [] then d else v)"

definition numOr :: "int option \<Rightarrow> int \<Rightarrow> int" where
  \<comment> \<open>\<open>x || d\<close> for a number, \<open>None\<close> being NaN or \<open>undefined\<close>\<close>
  "numOr x d = (case x of None \<Rightarrow> d | Some n \<Rightarrow> if n = 0 then d else n)"

definition falsyStr :: "string option \<Rightarrow> bool" where
  \<comment> \<open>\<open>!x\<close> for a string or \<open>null\<close>\<close>
  "falsyStr x = (case x of None \<Rightarrow> True | Some v \<Rightarrow> v = [])"

definition falsyNum :: "int option \<Rightarrow> bool" where
  \<comment> \<open>\<open>!x\<close> for a number: NaN and 0\<close>
  "falsyNum x = (case x of None \<Rightarrow> True | Some n \<Rightarrow> n = 0)"

definition createRoom :: "string \<Rightarrow> int \<Rightarrow> string \<Rightarrow> string \<Rightarrow> World \<Rightarrow> addr \<times> World" where
  \<comment> \<open>\<open>room = new Room(...); rooms.set(roomId, room)\<close>\<close>
  "createRoom lid dp url uid s =
     (let r = nextRoom s in
      (r, s\<lparr>roomHeap := (roomHeap s)(r :=
               newRoom lid dp url uid (numOr (cfg_maxReconnectAttempts (config s)) 5)
                 (numOr (cfg_connectionTimeout (config s)) 10000) (clock s)),
             nextRoom := Suc r,
             rooms := (rooms s)(lid \<mapsto> r)\<rparr>))"

definition getOrCreateRoom :: "string \<Rightarrow> int \<Rightarrow> string \<Rightarrow> string \<Rightarrow> World \<Rightarrow> addr \<times> World" where
  "getOrCreateRoom lid dp url uid s =
     (case rooms s lid of
        None \<Rightarrow> createRoom lid dp url uid s
      | Some r0 \<Rightarrow>
          if yahooWebSocketUrl (roomHeap s r0) \<noteq> url
          then createRoom lid dp url uid (cleanup r0 s)
          else (r0, s))"

definition missingParameters :: string where
  "missingParameters = ''Missing required parameters: leagueId, draftPosition, websocketUrl''"

definition onConnection :: "(string \<Rightarrow> bool) \<Rightarrow> addr \<Rightarrow> string \<Rightarrow> ConnParams \<Rightarrow> World \<Rightarrow> World" where
  \<comment> \<open>The \<open>connection\<close> handler: \<open>ws\<close> is the accepted socket, \<open>clientId\<close> the fresh
      uuid, \<open>q\<close> the decoded query parameters.\<close>
  "onConnection ctor ws clientId q s =
     (let draftPosition = parseInt (strOr (q_draftPosition q) ''0'');
          uid = strOr (q_platformUserId q) ''unknown''
      in if falsyStr (q_leagueId q) \<or> falsyNum draftPosition \<or> falsyStr (q_websocketUrl q)
         then closeClient ws 1008 missingParameters s
         else
           (let lid = strOr (q_leagueId q) [];
                dp = numOr draftPosition 0;
                url = strOr (q_websocketUrl q) [];
                (r, s1) = getOrCreateRoom lid dp url uid s;
                s2 = addClient ctor r ws clientId dp s1
            in s2\<lparr>clientConnections := (clientConnections s2)(clientId \<mapsto> (ws, r)),
                  session := (session s2)(ws \<mapsto> (clientId, r))\<rparr>))"

definition onClientMessage :: "(string \<Rightarrow> bool) \<Rightarrow> addr \<Rightarrow> ClientMessage \<Rightarrow> World \<Rightarrow> World" where
  "onClientMessage ctor ws m s =
     (case session s ws of
        None \<Rightarrow> s
      | Some (clientId, r) \<Rightarrow>
          (case m of
             YahooMessage d \<Rightarrow> sendToYahoo r d s
           | YahooReconnect reconnectData \<Rightarrow>
               (case handleClientReconnectRequest ctor r reconnectData s of
                  (s', None) \<Rightarrow> s'
                | (s', Some e) \<Rightarrow> emit (DownSend ws (yahoo_error ''Failed to reconnect to Yahoo'')) s')
           | OtherControl \<Rightarrow> s
           | NotJson raw \<Rightarrow> sendToYahoo r raw s))"

definition onClientClose :: "addr \<Rightarrow> World \<Rightarrow> World" where
  "onClientClose ws s =
     (case session s ws of
        None \<Rightarrow> s
      | Some (clientId, r) \<Rightarrow>
          (let s1 = removeClient r ws s
           in s1\<lparr>clientConnections := (clientConnections s1)(clientId := None)\<rparr>))"

section \<open>The handlers of an upstream link\<close>

definition onOpen :: "addr \<Rightarrow> World \<Rightarrow> World" where
  "onOpen r s =
     broadcastToClients r (yahoo_connected ''Connected to Yahoo WebSocket'')
       (startHeartbeat r
          (sendJoinMessageToYahoo r
             (updRoom r (\<lambda>rm. rm\<lparr>isConnectingToYahoo := False, reconnectAttempts := 0,
                                  hasJoined := False\<rparr>) s)))"

definition onMessage :: "addr \<Rightarrow> string \<Rightarrow> World \<Rightarrow> World" where
  "onMessage r d s = broadcastToClients r (yahoo_message d) s"

definition onClose :: "addr \<Rightarrow> nat \<Rightarrow> string \<Rightarrow> World \<Rightarrow> World" where
  "onClose r code reason s =
     broadcastToClients r (yahoo_disconnected code reason)
       (stopHeartbeat r (updRoom r (\<lambda>rm. rm\<lparr>isConnectingToYahoo := False\<rparr>) s))"

definition onError :: "addr \<Rightarrow> string \<Rightarrow> World \<Rightarrow> World" where
  "onError r msg s =
     broadcastToClients r (yahoo_error msg) (updRoom r (\<lambda>rm. rm\<lparr>isConnectingToYahoo := False\<rparr>) s)"

section \<open>Events\<close>

text \<open>
  What the runtime delivers to the process, one event at a time: a downstream socket
  is accepted, sends a frame or closes; an upstream link opens, delivers a frame,
  closes or fails; a timer fires; an operator deletes a room; time passes. An event
  that cannot happen in a state (a frame on a closed socket, a timeout before it is
  due) leaves the state as it is.
\<close>

datatype event =
    Connection addr string ConnParams
  | ClientFrame addr ClientMessage
  | ClientClosed addr
  | UpstreamOpen addr
  | UpstreamFrame addr string
  | UpstreamClosed addr nat string
  | UpstreamError addr string
  | TimeoutFired nat
  | IntervalFired nat
  | HttpDelete string
  | Advance nat

definition upstreamOpen :: "addr \<Rightarrow> World \<Rightarrow> World" where
  "upstreamOpen l s = onOpen (owner s l) (s\<lparr>upstream := (upstream s)(l := OPEN)\<rparr>)"

definition timeoutFired :: "nat \<Rightarrow> World \<Rightarrow> World" where
  "timeoutFired t s =
     (case timeouts s t of
        None \<Rightarrow> s
      | Some (due, r) \<Rightarrow>
          if due \<le> clock s then cleanupTimerCallback r (s\<lparr>timeouts := (timeouts s)(t := None)\<rparr>)
          else s)"

fun step :: "(string \<Rightarrow> bool) \<Rightarrow> World \<Rightarrow> event \<Rightarrow> World" where
  "step ctor s (Connection ws clientId q) =
     (if session s ws = None
      then onConnection ctor ws clientId q (s\<lparr>downstream := (downstream s)(ws := OPEN)\<rparr>)
      else s)"
| "step ctor s (ClientFrame ws m) =
     (if downstream s ws = OPEN \<or> downstream s ws = CLOSING then onClientMessage ctor ws m s else s)"
| "step ctor s (ClientClosed ws) =
     (if downstream s ws = CLOSED then s
      else onClientClose ws (s\<lparr>downstream := (downstream s)(ws := CLOSED)\<rparr>))"
| "step ctor s (UpstreamOpen l) =
     (if l < nextLink s \<and> upstream s l = CONNECTING then upstreamOpen l s else s)"
| "step ctor s (UpstreamFrame l d) =
     (if l < nextLink s \<and> (upstream s l = OPEN \<or> upstream s l = CLOSING)
      then onMessage (owner s l) d s else s)"
| "step ctor s (UpstreamClosed l code reason) =
     (if l < nextLink s \<and> upstream s l \<noteq> CLOSED
      then onClose (owner s l) code reason (s\<lparr>upstream := (upstream s)(l := CLOSED)\<rparr>) else s)"
| "step ctor s (UpstreamError l msg) =
     (if l < nextLink s \<and> upstream s l \<noteq> CLOSED
      then onError (owner s l) msg (s\<lparr>upstream := (upstream s)(l := CLOSING)\<rparr>) else s)"
| "step ctor s (TimeoutFired t) = timeoutFired t s"
| "step ctor s (IntervalFired t) =
     (case intervals s t of None \<Rightarrow> s | Some r \<Rightarrow> heartbeatTick r s)"
| "step ctor s (HttpDelete rid) = fst (deleteRoom rid s)"
| "step ctor s (Advance d) = s\<lparr>clock := clock s + d\<rparr>"

definition run :: "(string \<Rightarrow> bool) \<Rightarrow> World \<Rightarrow> event list \<Rightarrow> World" where
  "run ctor s evs = foldl (step ctor) s evs"

definition start :: World where
  \<comment> \<open>The process after start-up: no room, no socket, no timer, default configuration.\<close>
  "start =
     \<lparr>rooms = Map.empty, clientConnections = Map.empty,
      roomHeap = (\<lambda>_. newRoom [] 0 [] [] 5 10000 0),
      upstream = (\<lambda>_. CLOSED), owner = (\<lambda>_. 0), downstream = (\<lambda>_. CLOSED),
      session = Map.empty, timeouts = Map.empty, intervals = Map.empty,
      nextRoom = 0, nextLink = 0, nextTimer = 0, clock = 0,
      config = \<lparr>cfg_maxReconnectAttempts = Some 5, cfg_connectionTimeout = Some 10000\<rparr>,
      trace = []\<rparr>"

section \<open>Vocabulary of the statements\<close>

definition openClients :: "addr \<Rightarrow> World \<Rightarrow> addr list" where
  \<comment> \<open>The sockets of a Room's client set that are in the OPEN state, in insertion order.\<close>
  "openClients r s = filter (\<lambda>ws. downstream s ws = OPEN) (map fst (clients (roomHeap s r)))"

fun downSends :: "effect list \<Rightarrow> (addr \<times> ProxyMessage) list" where
  \<comment> \<open>The frames sent downstream in a trace, each with the socket it went to.\<close>
  "downSends [] = []"
| "downSends (DownSend ws m # es) = (ws, m) # downSends es"
| "downSends (e # es) = downSends es"

fun isDownClose :: "effect \<Rightarrow> bool" where
  \<comment> \<open>The effect is the close of a downstream socket.\<close>
  "isDownClose (DownClose ws code reason) = True"
| "isDownClose e = False"

definition intervalsOf :: "addr \<Rightarrow> World \<Rightarrow> nat set" where
  \<comment> \<open>The intervals of the runtime whose callback is the heartbeat of Room \<open>r\<close>.\<close>
  "intervalsOf r s = {t. intervals s t = Some r}"

definition timeoutsOf :: "addr \<Rightarrow> World \<Rightarrow> nat set" where
  \<comment> \<open>The pending timeouts of the runtime whose callback retires Room \<open>r\<close>.\<close>
  "timeoutsOf r s = {t. \<exists>due. timeouts s t = Some (due, r)}"

definition newClientReason :: string where
  \<comment> \<open>The close reason that \<open>addClient\<close> passes, as the source spells it.\<close>
  "newClientReason = ''New client joined - forcing reconnection''"

definition reasonInSpec :: string where
  \<comment> \<open>The close reason as the specification of \<open>addClient\<close> spells it: lower case, with
      an em dash (U+2014, three bytes in UTF-8).\<close>
  "reasonInSpec = ''new client joined '' @ [CHR 0xE2, CHR 0x80, CHR 0x94] @ '' forcing reconnection''"

subsection \<open>Scenarios\<close>

definition anyUrl :: "string \<Rightarrow> bool" where
  \<comment> \<open>A WebSocket constructor that refuses no URL.\<close>
  "anyUrl url = True"

definition userA :: ConnParams where
  "userA = \<lparr>q_leagueId = Some ''12345'', q_draftPosition = Some ''1'',
            q_websocketUrl = Some ''wss://u'', q_platformUserId = Some ''user-a''\<rparr>"

definition userB :: ConnParams where
  "userB = \<lparr>q_leagueId = Some ''12345'', q_draftPosition = Some ''3'',
            q_websocketUrl = Some ''wss://u'', q_platformUserId = Some ''user-b''\<rparr>"

definition userC :: ConnParams where
  \<comment> \<open>Same league as \<open>userA\<close>, another upstream URL.\<close>
  "userC = \<lparr>q_leagueId = Some ''12345'', q_draftPosition = Some ''2'',
            q_websocketUrl = Some ''wss://v'', q_platformUserId = Some ''user-c''\<rparr>"

definition userD :: ConnParams where
  "userD = \<lparr>q_leagueId = Some ''12345'', q_draftPosition = Some ''4'',
            q_websocketUrl = Some ''wss://u'', q_platformUserId = Some ''user-d''\<rparr>"

definition dialing :: World where
  \<comment> \<open>The first client has joined; the upstream link is still connecting.\<close>
  "dialing = run anyUrl start [Connection 10 ''client-a'' userA]"

definition connected :: World where
  \<comment> \<open>The upstream link of the first client has opened.\<close>
  "connected = run anyUrl dialing [UpstreamOpen 0]"

definition secondJoined :: World where
  \<comment> \<open>A second client has joined the Room of the first, with the same upstream URL.\<close>
  "secondJoined = run anyUrl connected [Connection 11 ''client-b'' userB]"

definition replaced :: World where
  \<comment> \<open>A client with another upstream URL has arrived while the first is connected to
      its Room: the Room was cleaned up and replaced under the same league.\<close>
  "replaced = run anyUrl dialing [Connection 11 ''client-c'' userC]"

definition orphanTimer :: World where
  \<comment> \<open>The client of the replaced Room has left, and two seconds have passed.\<close>
  "orphanTimer = run anyUrl replaced [ClientClosed 10, Advance 2000]"

definition emptied :: World where
  \<comment> \<open>After the second client has joined, the link of the first reports its close and
      both clients leave; the second link is still connecting.\<close>
  "emptied = run anyUrl secondJoined [UpstreamClosed 0 1000 [], ClientClosed 10, ClientClosed 11]"

definition orphanLink :: World where
  \<comment> \<open>A client joins the emptied Room before its retirement timer expires: a third
      link is dialed while the second is still connecting.\<close>
  "orphanLink = run anyUrl emptied [Connection 12 ''client-d'' userD]"

definition leakedHeartbeat :: World where
  \<comment> \<open>After the second client has joined, the new link opens before the old one has
      reported its close; then both clients leave and the retirement timer fires.\<close>
  "leakedHeartbeat = run anyUrl secondJoined
     [UpstreamOpen 1, ClientClosed 10, ClientClosed 11, Advance 2000, TimeoutFired 2]"

section \<open>Evaluation of the model\<close>

lemmas string_defs =
  parseInt_def trimStart.simps wsPrefix_def digitValue_def userAgent_def encodeURIComponent_def
  encodeByte_def uriUnreserved_def hexDigit_def numberToString_def showNat.simps

lemmas room_defs =
  newRoom_def addClient_def beforeConnect_def forceReinit_def cancelCleanup_def
  connectToYahoo_def linkOpen_def emit_def updRoom_def resetConnectionState_def dropLink_def
  closeLink_def afterClose_def onOpen_def sendJoinMessageToYahoo_def startHeartbeat_def
  broadcastToClients_def sendIfOpen_def joinMessage_def onClose_def onError_def onMessage_def
  stopHeartbeat_def closeClient_def removeClient_def mapDelete_def disconnectFromYahoo_def
  cleanup_def cleanupTimerCallback_def handleClientReconnectRequest_def sendToYahoo_def
  heartbeatTick_def getStatus_def

lemmas app_defs =
  run_def start_def onConnection_def strOr_def numOr_def falsyStr_def falsyNum_def
  getOrCreateRoom_def createRoom_def missingParameters_def upstreamOpen_def timeoutFired_def
  onClientMessage_def onClientClose_def getRoomStatus_def deleteRoom_def closeIfOpen_def

lemma parseInt_examples:
  "parseInt ''0'' = Some 0" "parseInt ''1'' = Some 1" "parseInt ''2'' = Some 2"
  "parseInt ''3'' = Some 3" "parseInt ''-1'' = Some (- 1)" "parseInt ''abc'' = None"
  by (simp_all add: string_defs)

lemma parseInt_4: "parseInt ''4'' = Some 4"
  by (simp add: string_defs)

lemma join_example:
  "joinMessage (rm\<lparr>leagueId := ''12345'', draftPosition := 1, platformUserId := ''user-a''\<rparr>)
     = ''8|12345|1|YahooFantasyProxy%2F1.0%20(user-a)|''"
  by (simp add: joinMessage_def string_defs)

lemma dialing_state:
  "dialing =
    \<lparr>rooms = [''12345'' \<mapsto> 0], clientConnections = [''client-a'' \<mapsto> (10, 0)],
      roomHeap = (\<lambda>_. newRoom [] 0 [] [] 5 10000 0)
         (0 := (newRoom ''12345'' 1 ''wss://u'' ''user-a'' 5 10000 0)
                 \<lparr>yahooWs := Some 0, clients := [(10, ''client-a'', 1)],
                  isConnectingToYahoo := True\<rparr>),
      upstream = (\<lambda>_. CLOSED)(0 := CONNECTING), owner = (\<lambda>_. 0)(0 := 0),
      downstream = (\<lambda>_. CLOSED)(10 := OPEN),
      session = [10 \<mapsto> (''client-a'', 0)], timeouts = Map.empty,
      intervals = Map.empty, nextRoom = 1, nextLink = 1, nextTimer = 0, clock = 0,
      config = \<lparr>cfg_maxReconnectAttempts = Some 5, cfg_connectionTimeout = Some 10000\<rparr>,
      trace = [Dial 0 ''wss://u'', DownSend 10 (room_joined ''12345'' False 1 1)]\<rparr>"
  by (simp add: dialing_def userA_def anyUrl_def app_defs room_defs parseInt_examples Let_def)

lemma connected_state:
  "connected =
    \<lparr>rooms = [''12345'' \<mapsto> 0], clientConnections = [''client-a'' \<mapsto> (10, 0)],
      roomHeap = (\<lambda>_. newRoom [] 0 [] [] 5 10000 0)
         (0 := (newRoom ''12345'' 1 ''wss://u'' ''user-a'' 5 10000 0)
                 \<lparr>yahooWs := Some 0, clients := [(10, ''client-a'', 1)],
                  heartbeatInterval := Some 0, hasJoined := True\<rparr>),
      upstream = (\<lambda>_. CLOSED)(0 := OPEN), owner = (\<lambda>_. 0)(0 := 0),
      downstream = (\<lambda>_. CLOSED)(10 := OPEN),
      session = [10 \<mapsto> (''client-a'', 0)], timeouts = Map.empty,
      intervals = [0 \<mapsto> 0], nextRoom = 1, nextLink = 1, nextTimer = 1, clock = 0,
      config = \<lparr>cfg_maxReconnectAttempts = Some 5, cfg_connectionTimeout = Some 10000\<rparr>,
      trace = [Dial 0 ''wss://u'', DownSend 10 (room_joined ''12345'' False 1 1),
               UpSend 0 ''8|12345|1|YahooFantasyProxy%2F1.0%20(user-a)|'',
               DownSend 10 (yahoo_connected ''Connected to Yahoo WebSocket'')]\<rparr>"
  by (simp add: connected_def dialing_state run_def upstreamOpen_def room_defs string_defs Let_def)

lemma secondJoined_state:
  "secondJoined =
    \<lparr>rooms = [''12345'' \<mapsto> 0],
      clientConnections = [''client-a'' \<mapsto> (10, 0), ''client-b'' \<mapsto> (11, 0)],
      roomHeap = (\<lambda>_. newRoom [] 0 [] [] 5 10000 0)
         (0 := (newRoom ''12345'' 1 ''wss://u'' ''user-a'' 5 10000 0)
                 \<lparr>yahooWs := Some 1, clients := [(10, ''client-a'', 1), (11, ''client-b'', 3)],
                  heartbeatInterval := Some 0, isConnectingToYahoo := True\<rparr>),
      upstream = (\<lambda>_. CLOSED)(0 := CLOSING, 1 := CONNECTING), owner = (\<lambda>_. 0)(0 := 0, 1 := 0),
      downstream = (\<lambda>_. CLOSED)(10 := OPEN, 11 := OPEN),
      session = [10 \<mapsto> (''client-a'', 0), 11 \<mapsto> (''client-b'', 0)], timeouts = Map.empty,
      intervals = [0 \<mapsto> 0], nextRoom = 1, nextLink = 2, nextTimer = 1, clock = 0,
      config = \<lparr>cfg_maxReconnectAttempts = Some 5, cfg_connectionTimeout = Some 10000\<rparr>,
      trace = [Dial 0 ''wss://u'', DownSend 10 (room_joined ''12345'' False 1 1),
               UpSend 0 ''8|12345|1|YahooFantasyProxy%2F1.0%20(user-a)|'',
               DownSend 10 (yahoo_connected ''Connected to Yahoo WebSocket''),
               UpClose 0 1000 ''New client joined - forcing reconnection'',
               Dial 1 ''wss://u'', DownSend 11 (room_joined ''12345'' False 2 3)]\<rparr>"
  by (simp add: secondJoined_def connected_state userB_def anyUrl_def app_defs room_defs
      parseInt_examples Let_def)

lemma replaced_state:
  "replaced =
    \<lparr>rooms = [''12345'' \<mapsto> 1],
      clientConnections = [''client-a'' \<mapsto> (10, 0), ''client-c'' \<mapsto> (11, 1)],
      roomHeap = (\<lambda>_. newRoom [] 0 [] [] 5 10000 0)
         (0 := (newRoom ''12345'' 1 ''wss://u'' ''user-a'' 5 10000 0)
                 \<lparr>isConnectingToYahoo := True, isIntentionalDisconnect := True\<rparr>,
          1 := (newRoom ''12345'' 2 ''wss://v'' ''user-c'' 5 10000 0)
                 \<lparr>yahooWs := Some 1, clients := [(11, ''client-c'', 2)],
                  isConnectingToYahoo := True\<rparr>),
      upstream = (\<lambda>_. CLOSED)(0 := CLOSING, 1 := CONNECTING), owner = (\<lambda>_. 0)(0 := 0, 1 := 1),
      downstream = (\<lambda>_. CLOSED)(10 := OPEN, 11 := OPEN),
      session = [10 \<mapsto> (''client-a'', 0), 11 \<mapsto> (''client-c'', 1)], timeouts = Map.empty,
      intervals = Map.empty, nextRoom = 2, nextLink = 2, nextTimer = 0, clock = 0,
      config = \<lparr>cfg_maxReconnectAttempts = Some 5, cfg_connectionTimeout = Some 10000\<rparr>,
      trace = [Dial 0 ''wss://u'', DownSend 10 (room_joined ''12345'' False 1 1),
               UpClose 0 1000 ''Room cleanup'', Dial 1 ''wss://v'',
               DownSend 11 (room_joined ''12345'' False 1 2)]\<rparr>"
  by (simp add: replaced_def dialing_state userC_def anyUrl_def app_defs room_defs
      parseInt_examples Let_def)

lemma orphanTimer_state:
  "orphanTimer =
    \<lparr>rooms = [''12345'' \<mapsto> 1], clientConnections = [''client-c'' \<mapsto> (11, 1)],
      roomHeap = (\<lambda>_. newRoom [] 0 [] [] 5 10000 0)
         (1 := (newRoom ''12345'' 2 ''wss://v'' ''user-c'' 5 10000 0)
                 \<lparr>yahooWs := Some 1, clients := [(11, ''client-c'', 2)],
                  isConnectingToYahoo := True\<rparr>,
          0 := (newRoom ''12345'' 1 ''wss://u'' ''user-a'' 5 10000 0)
                 \<lparr>isConnectingToYahoo := True, isIntentionalDisconnect := True,
                  cleanupTimeout := Some 0\<rparr>),
      upstream = (\<lambda>_. CLOSED)(0 := CLOSING, 1 := CONNECTING), owner = (\<lambda>_. 0)(0 := 0, 1 := 1),
      downstream = (\<lambda>_. CLOSED)(11 := OPEN, 10 := CLOSED),
      session = [10 \<mapsto> (''client-a'', 0), 11 \<mapsto> (''client-c'', 1)],
      timeouts = [0 \<mapsto> (2000, 0)],
      intervals = Map.empty, nextRoom = 2, nextLink = 2, nextTimer = 1, clock = 2000,
      config = \<lparr>cfg_maxReconnectAttempts = Some 5, cfg_connectionTimeout = Some 10000\<rparr>,
      trace = [Dial 0 ''wss://u'', DownSend 10 (room_joined ''12345'' False 1 1),
               UpClose 0 1000 ''Room cleanup'', Dial 1 ''wss://v'',
               DownSend 11 (room_joined ''12345'' False 1 2)]\<rparr>"
  by (simp add: orphanTimer_def replaced_state run_def onClientClose_def removeClient_def
      mapDelete_def updRoom_def newRoom_def Let_def)

lemma emptied_state:
  "emptied =
    \<lparr>rooms = [''12345'' \<mapsto> 0], clientConnections = Map.empty,
      roomHeap = (\<lambda>_. newRoom [] 0 [] [] 5 10000 0)
         (0 := (newRoom ''12345'' 1 ''wss://u'' ''user-a'' 5 10000 0)
                 \<lparr>yahooWs := Some 1, cleanupTimeout := Some 1\<rparr>),
      upstream = (\<lambda>_. CLOSED)(0 := CLOSED, 1 := CONNECTING), owner = (\<lambda>_. 0)(0 := 0, 1 := 0),
      downstream = (\<lambda>_. CLOSED)(10 := CLOSED, 11 := CLOSED),
      session = [10 \<mapsto> (''client-a'', 0), 11 \<mapsto> (''client-b'', 0)],
      timeouts = [1 \<mapsto> (2000, 0)],
      intervals = Map.empty, nextRoom = 1, nextLink = 2, nextTimer = 2, clock = 0,
      config = \<lparr>cfg_maxReconnectAttempts = Some 5, cfg_connectionTimeout = Some 10000\<rparr>,
      trace = [Dial 0 ''wss://u'', DownSend 10 (room_joined ''12345'' False 1 1),
               UpSend 0 ''8|12345|1|YahooFantasyProxy%2F1.0%20(user-a)|'',
               DownSend 10 (yahoo_connected ''Connected to Yahoo WebSocket''),
               UpClose 0 1000 ''New client joined - forcing reconnection'',
               Dial 1 ''wss://u'', DownSend 11 (room_joined ''12345'' False 2 3),
               DownSend 10 (yahoo_disconnected 1000 []),
               DownSend 11 (yahoo_disconnected 1000 [])]\<rparr>"
  by (simp add: emptied_def secondJoined_state run_def onClose_def stopHeartbeat_def
      broadcastToClients_def sendIfOpen_def emit_def onClientClose_def removeClient_def
      mapDelete_def updRoom_def newRoom_def Let_def fun_upd_twist)

lemma orphanLink_state:
  "orphanLink =
    \<lparr>rooms = [''12345'' \<mapsto> 0], clientConnections = [''client-d'' \<mapsto> (12, 0)],
      roomHeap = (\<lambda>_. newRoom [] 0 [] [] 5 10000 0)
         (0 := (newRoom ''12345'' 1 ''wss://u'' ''user-a'' 5 10000 0)
                 \<lparr>yahooWs := Some 2, clients := [(12, ''client-d'', 4)],
                  isConnectingToYahoo := True\<rparr>),
      upstream = (\<lambda>_. CLOSED)(0 := CLOSED, 1 := CONNECTING, 2 := CONNECTING),
      owner = (\<lambda>_. 0)(0 := 0, 1 := 0, 2 := 0),
      downstream = (\<lambda>_. CLOSED)(10 := CLOSED, 11 := CLOSED, 12 := OPEN),
      session = [10 \<mapsto> (''client-a'', 0), 11 \<mapsto> (''client-b'', 0), 12 \<mapsto> (''client-d'', 0)],
      timeouts = Map.empty,
      intervals = Map.empty, nextRoom = 1, nextLink = 3, nextTimer = 2, clock = 0,
      config = \<lparr>cfg_maxReconnectAttempts = Some 5, cfg_connectionTimeout = Some 10000\<rparr>,
      trace = [Dial 0 ''wss://u'', DownSend 10 (room_joined ''12345'' False 1 1),
               UpSend 0 ''8|12345|1|YahooFantasyProxy%2F1.0%20(user-a)|'',
               DownSend 10 (yahoo_connected ''Connected to Yahoo WebSocket''),
               UpClose 0 1000 ''New client joined - forcing reconnection'',
               Dial 1 ''wss://u'', DownSend 11 (room_joined ''12345'' False 2 3),
               DownSend 10 (yahoo_disconnected 1000 []),
               DownSend 11 (yahoo_disconnected 1000 []),
               Dial 2 ''wss://u'', DownSend 12 (room_joined ''12345'' False 1 4)]\<rparr>"
  by (simp add: orphanLink_def emptied_state userD_def anyUrl_def app_defs room_defs
      parseInt_4 Let_def)

section \<open>Broadcasts\<close>

lemma downSends_append: "downSends (xs @ ys) = downSends xs @ downSends ys"
  by (induction xs rule: downSends.induct) simp_all

lemma downSends_map: "downSends (map (\<lambda>ws. DownSend ws m) wss) = map (\<lambda>ws. (ws, m)) wss"
  by (induction wss) simp_all

lemma foldl_sendIfOpen:
  "foldl (sendIfOpen m) s cs =
     s\<lparr>trace := trace s @ map (\<lambda>ws. DownSend ws m)
        (filter (\<lambda>ws. downstream s ws = OPEN) (map fst cs))\<rparr>"
proof (induction cs arbitrary: s)
  case Nil
  then show ?case by simp
next
  case (Cons c cs)
  have "foldl (sendIfOpen m) s (c # cs) = foldl (sendIfOpen m) (sendIfOpen m s c) cs"
    by simp
  also have "\<dots> = (sendIfOpen m s c)\<lparr>trace := trace (sendIfOpen m s c) @ map (\<lambda>ws. DownSend ws m)
        (filter (\<lambda>ws. downstream (sendIfOpen m s c) ws = OPEN) (map fst cs))\<rparr>"
    by (rule Cons.IH)
  also have "\<dots> = s\<lparr>trace := trace s @ map (\<lambda>ws. DownSend ws m)
        (filter (\<lambda>ws. downstream s ws = OPEN) (map fst (c # cs)))\<rparr>"
    by (simp add: sendIfOpen_def emit_def)
  finally show ?case .
qed

lemma broadcast_eq:
  "broadcastToClients r m s = s\<lparr>trace := trace s @ map (\<lambda>ws. DownSend ws m) (openClients r s)\<rparr>"
  by (simp add: broadcastToClients_def openClients_def foldl_sendIfOpen)

text \<open>
  C10. Every broadcast of a Room (\<open>yahoo_connected\<close> on open, \<open>yahoo_message\<close>,
  \<open>yahoo_disconnected\<close> on close, \<open>yahoo_error\<close>) sends its frame to exactly those
  sockets of the client set that are in the OPEN state, once each and in insertion
  order; a socket in any other state gets nothing, and the client set is the same
  afterwards.
\<close>

theorem broadcast_only_open:
  "broadcastToClients r m s
     = s\<lparr>trace := trace s @ map (\<lambda>ws. DownSend ws m) (openClients r s)\<rparr>
   \<and> clients (roomHeap (broadcastToClients r m s) r) = clients (roomHeap s r)
   \<and> downSends (trace (onMessage r d s))
       = downSends (trace s) @ map (\<lambda>ws. (ws, yahoo_message d)) (openClients r s)
   \<and> downSends (trace (onError r msg s))
       = downSends (trace s) @ map (\<lambda>ws. (ws, yahoo_error msg)) (openClients r s)
   \<and> downSends (trace (onClose r code reason s))
       = downSends (trace s)
         @ map (\<lambda>ws. (ws, yahoo_disconnected code reason)) (openClients r s)
   \<and> downSends (trace (onOpen r s))
       = downSends (trace s)
         @ map (\<lambda>ws. (ws, yahoo_connected ''Connected to Yahoo WebSocket'')) (openClients r s)
   \<and> clients (roomHeap (onMessage r d s) r) = clients (roomHeap s r)
   \<and> clients (roomHeap (onError r msg s) r) = clients (roomHeap s r)
   \<and> clients (roomHeap (onClose r code reason s) r) = clients (roomHeap s r)
   \<and> clients (roomHeap (onOpen r s) r) = clients (roomHeap s r)"
proof (intro conjI)
  show "broadcastToClients r m s
     = s\<lparr>trace := trace s @ map (\<lambda>ws. DownSend ws m) (openClients r s)\<rparr>"
    by (rule broadcast_eq)
  show "clients (roomHeap (broadcastToClients r m s) r) = clients (roomHeap s r)"
    by (simp add: broadcast_eq)
  show "downSends (trace (onMessage r d s))
       = downSends (trace s) @ map (\<lambda>ws. (ws, yahoo_message d)) (openClients r s)"
    by (simp add: onMessage_def broadcast_eq downSends_append downSends_map)
  show "downSends (trace (onError r msg s))
       = downSends (trace s) @ map (\<lambda>ws. (ws, yahoo_error msg)) (openClients r s)"
    by (simp add: onError_def broadcast_eq downSends_append downSends_map openClients_def
        updRoom_def)
  show "downSends (trace (onClose r code reason s))
       = downSends (trace s)
         @ map (\<lambda>ws. (ws, yahoo_disconnected code reason)) (openClients r s)"
    by (simp add: onClose_def broadcast_eq downSends_append downSends_map openClients_def
        updRoom_def stopHeartbeat_def split: option.split)
  show "downSends (trace (onOpen r s))
       = downSends (trace s)
         @ map (\<lambda>ws. (ws, yahoo_connected ''Connected to Yahoo WebSocket'')) (openClients r s)"
    by (simp add: onOpen_def broadcast_eq downSends_append downSends_map openClients_def
        updRoom_def startHeartbeat_def sendJoinMessageToYahoo_def emit_def Let_def
        split: option.split)
  show "clients (roomHeap (onMessage r d s) r) = clients (roomHeap s r)"
    by (simp add: onMessage_def broadcast_eq)
  show "clients (roomHeap (onError r msg s) r) = clients (roomHeap s r)"
    by (simp add: onError_def broadcast_eq updRoom_def)
  show "clients (roomHeap (onClose r code reason s) r) = clients (roomHeap s r)"
    by (simp add: onClose_def broadcast_eq updRoom_def stopHeartbeat_def split: option.split)
  show "clients (roomHeap (onOpen r s) r) = clients (roomHeap s r)"
    by (simp add: onOpen_def broadcast_eq updRoom_def startHeartbeat_def
        sendJoinMessageToYahoo_def emit_def Let_def split: option.split)
qed

section \<open>The join frame\<close>

lemma sendJoin_gated: "hasJoined (roomHeap s r) \<Longrightarrow> sendJoinMessageToYahoo r s = s"
  by (simp add: sendJoinMessageToYahoo_def split: option.split)

lemma onOpen_current_link:
  assumes "yahooWs (roomHeap s r) = Some l" and "upstream s l = OPEN"
  shows "onOpen r s =
     s\<lparr>roomHeap := (roomHeap s)(r := (roomHeap s r)\<lparr>isConnectingToYahoo := False,
           reconnectAttempts := 0, hasJoined := True, heartbeatInterval := Some (nextTimer s)\<rparr>),
        intervals := (intervals s)(nextTimer s \<mapsto> r),
        nextTimer := Suc (nextTimer s),
        trace := trace s @ UpSend l (joinMessage (roomHeap s r))
           # map (\<lambda>ws. DownSend ws (yahoo_connected ''Connected to Yahoo WebSocket''))
               (openClients r s)\<rparr>"
  using assms
  by (simp add: onOpen_def broadcast_eq openClients_def sendJoinMessageToYahoo_def
      startHeartbeat_def updRoom_def emit_def joinMessage_def Let_def)

lemma open_current_link_trace:
  assumes "l < nextLink s" and "upstream s l = CONNECTING"
    and "owner s l = r" and "yahooWs (roomHeap s r) = Some l"
  shows "trace (step ctor s (UpstreamOpen l))
           = trace s @ UpSend l (joinMessage (roomHeap s r))
               # map (\<lambda>ws. DownSend ws (yahoo_connected ''Connected to Yahoo WebSocket''))
                   (openClients r s)"
    and "hasJoined (roomHeap (step ctor s (UpstreamOpen l)) r)"
proof -
  let ?s0 = "s\<lparr>upstream := (upstream s)(l := OPEN)\<rparr>"
  have cur: "yahooWs (roomHeap ?s0 r) = Some l" "upstream ?s0 l = OPEN"
    using assms by simp_all
  have st: "step ctor s (UpstreamOpen l) = onOpen r ?s0"
    using assms by (simp add: upstreamOpen_def)
  have oc: "openClients r ?s0 = openClients r s"
    by (simp add: openClients_def)
  show "trace (step ctor s (UpstreamOpen l))
           = trace s @ UpSend l (joinMessage (roomHeap s r))
               # map (\<lambda>ws. DownSend ws (yahoo_connected ''Connected to Yahoo WebSocket''))
                   (openClients r s)"
    unfolding st by (simp add: onOpen_current_link [OF cur] oc)
  show "hasJoined (roomHeap (step ctor s (UpstreamOpen l)) r)"
    unfolding st by (simp add: onOpen_current_link [OF cur])
qed

text \<open>
  C5. The code at the failing input. Two clients have joined league 12345 one after
  the other, so the link of the first (link 0) has been closed and link 1 dialed; link
  0 reports its close, which clears the dial flag; both clients leave; within the two
  seconds a new client joins. The Room has no client and no open link, so nothing is
  closed, and the dial flag is clear, so link 2 is dialed and takes the place of link
  1 in the Room, while link 1 is still connecting with the Room's handlers on it. The
  open handler sends the join frame on the link that the Room holds, after resetting
  \<open>hasJoined\<close>, not on the link that has opened. So when link 1 opens first, no join
  frame is sent for this open, on any link; and when link 2 has opened before, the
  open of link 1 sends a second join frame on link 2.
\<close>

theorem orphaned_link_open_join_frames:
  "orphanLink = run anyUrl start
     [Connection 10 ''client-a'' userA, UpstreamOpen 0, Connection 11 ''client-b'' userB,
      UpstreamClosed 0 1000 [], ClientClosed 10, ClientClosed 11,
      Connection 12 ''client-d'' userD]
   \<and> yahooWs (roomHeap orphanLink 0) = Some 2
   \<and> upstream orphanLink 1 = CONNECTING \<and> owner orphanLink 1 = 0
   \<and> upstream orphanLink 2 = CONNECTING \<and> owner orphanLink 2 = 0
   \<and> trace (run anyUrl orphanLink [UpstreamOpen 1])
       = trace orphanLink @ [DownSend 12 (yahoo_connected ''Connected to Yahoo WebSocket'')]
   \<and> upstream (run anyUrl orphanLink [UpstreamOpen 1]) 1 = OPEN
   \<and> hasJoined (roomHeap (run anyUrl orphanLink [UpstreamOpen 1]) 0) = False
   \<and> trace (run anyUrl orphanLink [UpstreamOpen 2, UpstreamOpen 1])
       = trace orphanLink
         @ [UpSend 2 ''8|12345|1|YahooFantasyProxy%2F1.0%20(user-a)|'',
            DownSend 12 (yahoo_connected ''Connected to Yahoo WebSocket''),
            UpSend 2 ''8|12345|1|YahooFantasyProxy%2F1.0%20(user-a)|'',
            DownSend 12 (yahoo_connected ''Connected to Yahoo WebSocket'')]"
proof -
  have h: "orphanLink = run anyUrl start
     [Connection 10 ''client-a'' userA, UpstreamOpen 0, Connection 11 ''client-b'' userB,
      UpstreamClosed 0 1000 [], ClientClosed 10, ClientClosed 11,
      Connection 12 ''client-d'' userD]"
    unfolding orphanLink_def emptied_def secondJoined_def connected_def dialing_def run_def
      foldl_Cons foldl_Nil
    by (rule refl)
  have b: "yahooWs (roomHeap orphanLink 0) = Some 2"
    "upstream orphanLink 1 = CONNECTING" "owner orphanLink 1 = 0"
    "upstream orphanLink 2 = CONNECTING" "owner orphanLink 2 = 0"
    by (simp_all add: orphanLink_state)
  have o1: "trace (run anyUrl orphanLink [UpstreamOpen 1])
       = trace orphanLink @ [DownSend 12 (yahoo_connected ''Connected to Yahoo WebSocket'')]"
    "upstream (run anyUrl orphanLink [UpstreamOpen 1]) 1 = OPEN"
    "hasJoined (roomHeap (run anyUrl orphanLink [UpstreamOpen 1]) 0) = False"
    by (simp_all add: orphanLink_state run_def upstreamOpen_def room_defs string_defs Let_def)
  have o2: "trace (run anyUrl orphanLink [UpstreamOpen 2, UpstreamOpen 1])
       = trace orphanLink
         @ [UpSend 2 ''8|12345|1|YahooFantasyProxy%2F1.0%20(user-a)|'',
            DownSend 12 (yahoo_connected ''Connected to Yahoo WebSocket''),
            UpSend 2 ''8|12345|1|YahooFantasyProxy%2F1.0%20(user-a)|'',
            DownSend 12 (yahoo_connected ''Connected to Yahoo WebSocket'')]"
    by (simp add: orphanLink_state run_def upstreamOpen_def room_defs string_defs Let_def)
  show ?thesis
    using h b o1 o2 by blast
qed

section \<open>Reconnection on request\<close>

text \<open>
  C7. A reconnect request whose \<open>leagueId\<close> is not the Room's fails with the league
  mismatch error and leaves the whole state as it was (the link, the primary draft
  position and \<open>hasJoined\<close> included); the message handler then sends the requesting
  client the frame \<open>{type: yahoo_error, error: Failed to reconnect to Yahoo}\<close>, and
  does nothing else.
\<close>

theorem reconnect_league_mismatch:
  assumes "session s ws = Some (clientId, r)"
    and "rd_leagueId d \<noteq> leagueId (roomHeap s r)"
  shows "handleClientReconnectRequest ctor r d s
           = (s, Some (LeagueMismatch (leagueId (roomHeap s r)) (rd_leagueId d)))
         \<and> onClientMessage ctor ws (YahooReconnect d) s
             = s\<lparr>trace := trace s @ [DownSend ws (yahoo_error ''Failed to reconnect to Yahoo'')]\<rparr>"
  using assms by (simp add: handleClientReconnectRequest_def onClientMessage_def emit_def)

text \<open>
  Witness for C7: the connected client of league 12345 asks to reconnect league 99999.
\<close>

theorem reconnect_league_mismatch_witness:
  "session connected 10 = Some (''client-a'', 0)
   \<and> rd_leagueId \<lparr>rd_leagueId = ''99999'', rd_draftPosition = 1\<rparr> \<noteq> leagueId (roomHeap connected 0)
   \<and> onClientMessage anyUrl 10 (YahooReconnect \<lparr>rd_leagueId = ''99999'', rd_draftPosition = 1\<rparr>)
        connected
       = connected\<lparr>trace := trace connected
            @ [DownSend 10 (yahoo_error ''Failed to reconnect to Yahoo'')]\<rparr>"
proof -
  have h: "session connected 10 = Some (''client-a'', 0)"
    "rd_leagueId \<lparr>rd_leagueId = ''99999'', rd_draftPosition = 1\<rparr> \<noteq> leagueId (roomHeap connected 0)"
    by (simp_all add: connected_state newRoom_def)
  show ?thesis
    using h reconnect_league_mismatch [OF h, of anyUrl] by simp
qed

lemma reconnect_redials:
  assumes "rd_leagueId d = leagueId (roomHeap s r)"
    and "\<not> isConnectingToYahoo (roomHeap s r)" and "ctor (yahooWebSocketUrl (roomHeap s r))"
  shows "snd (handleClientReconnectRequest ctor r d s) = None"
    and "trace (fst (handleClientReconnectRequest ctor r d s))
           = trace s
             @ (case yahooWs (roomHeap s r) of None \<Rightarrow> []
                | Some l \<Rightarrow> [UpClose l 1000 ''Client-initiated reconnection''])
             @ [Dial (nextLink s) (yahooWebSocketUrl (roomHeap s r))]"
    and "draftPosition (roomHeap (fst (handleClientReconnectRequest ctor r d s)) r)
           = rd_draftPosition d"
    and "yahooWs (roomHeap (fst (handleClientReconnectRequest ctor r d s)) r) = Some (nextLink s)"
    and "\<not> hasJoined (roomHeap (fst (handleClientReconnectRequest ctor r d s)) r)"
    and "\<not> isIntentionalDisconnect (roomHeap (fst (handleClientReconnectRequest ctor r d s)) r)"
    and "upstream (fst (handleClientReconnectRequest ctor r d s)) (nextLink s) = CONNECTING"
    and "owner (fst (handleClientReconnectRequest ctor r d s)) (nextLink s) = r"
    and "nextLink (fst (handleClientReconnectRequest ctor r d s)) = Suc (nextLink s)"
    and "leagueId (roomHeap (fst (handleClientReconnectRequest ctor r d s)) r) = leagueId (roomHeap s r)"
    and "platformUserId (roomHeap (fst (handleClientReconnectRequest ctor r d s)) r)
           = platformUserId (roomHeap s r)"
  using assms
  by (simp_all add: handleClientReconnectRequest_def connectToYahoo_def linkOpen_def
      resetConnectionState_def dropLink_def closeLink_def emit_def updRoom_def Let_def
      split: option.split)

lemma reconnect_join_uses_requested_position:
  assumes "rd_leagueId d = leagueId (roomHeap s r)"
    and "\<not> isConnectingToYahoo (roomHeap s r)" and "ctor (yahooWebSocketUrl (roomHeap s r))"
    and "isSafeInteger (rd_draftPosition d)"
  shows "trace (step ctor (fst (handleClientReconnectRequest ctor r d s)) (UpstreamOpen (nextLink s)))
           = trace (fst (handleClientReconnectRequest ctor r d s))
             @ UpSend (nextLink s)
                 (''8|'' @ leagueId (roomHeap s r) @ ''|'' @ numberToString (rd_draftPosition d)
                    @ ''|'' @ encodeURIComponent (userAgent (platformUserId (roomHeap s r))) @ ''|'')
             # map (\<lambda>ws. DownSend ws (yahoo_connected ''Connected to Yahoo WebSocket''))
                 (openClients r (fst (handleClientReconnectRequest ctor r d s)))"
proof -
  note h = reconnect_redials [where ctor = ctor and d = d, OF assms(1-3)]
  have pre: "nextLink s < nextLink (fst (handleClientReconnectRequest ctor r d s))"
    by (simp add: h)
  show ?thesis
    using open_current_link_trace(1) [OF pre h(7) h(8) h(4), of ctor]
    by (simp add: joinMessage_def h)
qed

text \<open>
  C8. The code at the failing input: the client of \<open>dialing\<close> asks for a reconnect with
  draft position 5 while the first dial is still in progress. The connecting link is
  closed with code 1000 and reason \<open>Client-initiated reconnection\<close> and dropped, the
  primary draft position becomes 5, and no new link is dialed: the Room is left with
  no link, also after the old link has reported its error and its close, so no join
  frame with position 5 is sent.
\<close>

theorem reconnect_while_dialing_no_redial:
  "trace (run anyUrl dialing
            [ClientFrame 10 (YahooReconnect \<lparr>rd_leagueId = ''12345'', rd_draftPosition = 5\<rparr>),
             UpstreamError 0 ''WebSocket was closed before the connection was established'',
             UpstreamClosed 0 1006 []])
     = [Dial 0 ''wss://u'', DownSend 10 (room_joined ''12345'' False 1 1),
        UpClose 0 1000 ''Client-initiated reconnection'',
        DownSend 10 (yahoo_error ''WebSocket was closed before the connection was established''),
        DownSend 10 (yahoo_disconnected 1006 [])]
   \<and> yahooWs (roomHeap (run anyUrl dialing
         [ClientFrame 10 (YahooReconnect \<lparr>rd_leagueId = ''12345'', rd_draftPosition = 5\<rparr>)]) 0)
       = None
   \<and> draftPosition (roomHeap (run anyUrl dialing
         [ClientFrame 10 (YahooReconnect \<lparr>rd_leagueId = ''12345'', rd_draftPosition = 5\<rparr>)]) 0)
       = 5
   \<and> nextLink (run anyUrl dialing
         [ClientFrame 10 (YahooReconnect \<lparr>rd_leagueId = ''12345'', rd_draftPosition = 5\<rparr>),
          UpstreamError 0 ''WebSocket was closed before the connection was established'',
          UpstreamClosed 0 1006 []])
       = nextLink dialing"
  by (simp add: dialing_state anyUrl_def app_defs room_defs Let_def)

section \<open>A client joins a Room that is in use\<close>

lemma cancelCleanup_proj [simp]:
  "trace (cancelCleanup r s) = trace s"
  "upstream (cancelCleanup r s) = upstream s"
  "downstream (cancelCleanup r s) = downstream s"
  "rooms (cancelCleanup r s) = rooms s"
  "nextLink (cancelCleanup r s) = nextLink s"
  "nextRoom (cancelCleanup r s) = nextRoom s"
  "owner (cancelCleanup r s) = owner s"
  "yahooWs (roomHeap (cancelCleanup r s) r') = yahooWs (roomHeap s r')"
  "clients (roomHeap (cancelCleanup r s) r') = clients (roomHeap s r')"
  "isConnectingToYahoo (roomHeap (cancelCleanup r s) r') = isConnectingToYahoo (roomHeap s r')"
  "yahooWebSocketUrl (roomHeap (cancelCleanup r s) r') = yahooWebSocketUrl (roomHeap s r')"
  "roomId (roomHeap (cancelCleanup r s) r') = roomId (roomHeap s r')"
  "leagueId (roomHeap (cancelCleanup r s) r') = leagueId (roomHeap s r')"
  "draftPosition (roomHeap (cancelCleanup r s) r') = draftPosition (roomHeap s r')"
  "platformUserId (roomHeap (cancelCleanup r s) r') = platformUserId (roomHeap s r')"
  "cleanupTimeout (roomHeap (cancelCleanup r s) r) = None"
  by (simp_all add: cancelCleanup_def updRoom_def split: option.split)

lemma linkOpen_cancelCleanup [simp]: "linkOpen r (cancelCleanup r' s) = linkOpen r s"
  by (simp add: linkOpen_def split: option.split)

lemma forced_reinit:
  assumes "0 < length (clients (roomHeap s r)) \<or> linkOpen r s"
  shows "trace (forceReinit r s)
           = trace s @ (case yahooWs (roomHeap s r) of None \<Rightarrow> []
                        | Some l \<Rightarrow> [UpClose l 1000 newClientReason])"
    and "yahooWs (roomHeap (forceReinit r s) r) = None"
    and "\<not> hasJoined (roomHeap (forceReinit r s) r)"
    and "\<not> isIntentionalDisconnect (roomHeap (forceReinit r s) r)"
    and "isConnectingToYahoo (roomHeap (forceReinit r s) r) = isConnectingToYahoo (roomHeap s r)"
    and "clients (roomHeap (forceReinit r s) r) = clients (roomHeap s r)"
    and "yahooWebSocketUrl (roomHeap (forceReinit r s) r) = yahooWebSocketUrl (roomHeap s r)"
    and "roomId (roomHeap (forceReinit r s) r) = roomId (roomHeap s r)"
    and "leagueId (roomHeap (forceReinit r s) r) = leagueId (roomHeap s r)"
    and "draftPosition (roomHeap (forceReinit r s) r) = draftPosition (roomHeap s r)"
    and "platformUserId (roomHeap (forceReinit r s) r) = platformUserId (roomHeap s r)"
    and "nextLink (forceReinit r s) = nextLink s"
    and "rooms (forceReinit r s) = rooms s"
    and "downstream (forceReinit r s) = downstream s"
    and "nextRoom (forceReinit r s) = nextRoom s"
  using assms
  by (simp_all add: forceReinit_def resetConnectionState_def dropLink_def closeLink_def
      emit_def updRoom_def newClientReason_def split: option.split)

lemma connect_after_drop:
  assumes "yahooWs (roomHeap p r) = None"
  shows "trace (fst (connectToYahoo ctor r p))
           = trace p @ (if \<not> isConnectingToYahoo (roomHeap p r) \<and> ctor (yahooWebSocketUrl (roomHeap p r))
                        then [Dial (nextLink p) (yahooWebSocketUrl (roomHeap p r))] else [])"
    and "clients (roomHeap (fst (connectToYahoo ctor r p)) r) = clients (roomHeap p r)"
    and "roomId (roomHeap (fst (connectToYahoo ctor r p)) r) = roomId (roomHeap p r)"
    and "leagueId (roomHeap (fst (connectToYahoo ctor r p)) r) = leagueId (roomHeap p r)"
    and "draftPosition (roomHeap (fst (connectToYahoo ctor r p)) r) = draftPosition (roomHeap p r)"
    and "platformUserId (roomHeap (fst (connectToYahoo ctor r p)) r) = platformUserId (roomHeap p r)"
    and "rooms (fst (connectToYahoo ctor r p)) = rooms p"
    and "downstream (fst (connectToYahoo ctor r p)) = downstream p"
    and "nextRoom (fst (connectToYahoo ctor r p)) = nextRoom p"
  using assms
  by (simp_all add: connectToYahoo_def linkOpen_def emit_def updRoom_def Let_def)

lemma connect_dials:
  assumes "yahooWs (roomHeap p r) = None" and "\<not> isConnectingToYahoo (roomHeap p r)"
    and "ctor (yahooWebSocketUrl (roomHeap p r))"
  shows "yahooWs (roomHeap (fst (connectToYahoo ctor r p)) r) = Some (nextLink p)"
    and "upstream (fst (connectToYahoo ctor r p)) (nextLink p) = CONNECTING"
    and "owner (fst (connectToYahoo ctor r p)) (nextLink p) = r"
    and "nextLink (fst (connectToYahoo ctor r p)) = Suc (nextLink p)"
  using assms
  by (simp_all add: connectToYahoo_def linkOpen_def emit_def updRoom_def Let_def)

lemma beforeConnect_forced:
  assumes "0 < length (clients (roomHeap s r)) \<or> linkOpen r s"
  shows "trace (beforeConnect r ws cid dp s)
           = trace s @ (case yahooWs (roomHeap s r) of None \<Rightarrow> []
                        | Some l \<Rightarrow> [UpClose l 1000 newClientReason])"
    and "yahooWs (roomHeap (beforeConnect r ws cid dp s) r) = None"
    and "\<not> hasJoined (roomHeap (beforeConnect r ws cid dp s) r)"
    and "\<not> isIntentionalDisconnect (roomHeap (beforeConnect r ws cid dp s) r)"
    and "isConnectingToYahoo (roomHeap (beforeConnect r ws cid dp s) r)
           = isConnectingToYahoo (roomHeap s r)"
    and "clients (roomHeap (beforeConnect r ws cid dp s) r)
           = mapSet ws (cid, dp) (clients (roomHeap s r))"
    and "yahooWebSocketUrl (roomHeap (beforeConnect r ws cid dp s) r)
           = yahooWebSocketUrl (roomHeap s r)"
    and "roomId (roomHeap (beforeConnect r ws cid dp s) r) = roomId (roomHeap s r)"
    and "leagueId (roomHeap (beforeConnect r ws cid dp s) r) = leagueId (roomHeap s r)"
    and "draftPosition (roomHeap (beforeConnect r ws cid dp s) r) = draftPosition (roomHeap s r)"
    and "platformUserId (roomHeap (beforeConnect r ws cid dp s) r)
           = platformUserId (roomHeap s r)"
    and "nextLink (beforeConnect r ws cid dp s) = nextLink s"
    and "rooms (beforeConnect r ws cid dp s) = rooms s"
    and "downstream (beforeConnect r ws cid dp s) = downstream s"
    and "nextRoom (beforeConnect r ws cid dp s) = nextRoom s"
proof -
  have c: "0 < length (clients (roomHeap (cancelCleanup r s) r)) \<or> linkOpen r (cancelCleanup r s)"
    using assms by simp
  note f = forced_reinit [OF c]
  show "trace (beforeConnect r ws cid dp s)
           = trace s @ (case yahooWs (roomHeap s r) of None \<Rightarrow> []
                        | Some l \<Rightarrow> [UpClose l 1000 newClientReason])"
    and "yahooWs (roomHeap (beforeConnect r ws cid dp s) r) = None"
    and "\<not> hasJoined (roomHeap (beforeConnect r ws cid dp s) r)"
    and "\<not> isIntentionalDisconnect (roomHeap (beforeConnect r ws cid dp s) r)"
    and "isConnectingToYahoo (roomHeap (beforeConnect r ws cid dp s) r)
           = isConnectingToYahoo (roomHeap s r)"
    and "clients (roomHeap (beforeConnect r ws cid dp s) r)
           = mapSet ws (cid, dp) (clients (roomHeap s r))"
    and "yahooWebSocketUrl (roomHeap (beforeConnect r ws cid dp s) r)
           = yahooWebSocketUrl (roomHeap s r)"
    and "roomId (roomHeap (beforeConnect r ws cid dp s) r) = roomId (roomHeap s r)"
    and "leagueId (roomHeap (beforeConnect r ws cid dp s) r) = leagueId (roomHeap s r)"
    and "draftPosition (roomHeap (beforeConnect r ws cid dp s) r) = draftPosition (roomHeap s r)"
    and "platformUserId (roomHeap (beforeConnect r ws cid dp s) r)
           = platformUserId (roomHeap s r)"
    and "nextLink (beforeConnect r ws cid dp s) = nextLink s"
    and "rooms (beforeConnect r ws cid dp s) = rooms s"
    and "downstream (beforeConnect r ws cid dp s) = downstream s"
    and "nextRoom (beforeConnect r ws cid dp s) = nextRoom s"
    using f by (simp_all add: beforeConnect_def updRoom_def)
qed

lemma addClient_forced_trace:
  assumes "0 < length (clients (roomHeap s r)) \<or> linkOpen r s"
  shows "trace (addClient ctor r ws cid dp s)
           = trace s
             @ (case yahooWs (roomHeap s r) of None \<Rightarrow> []
                | Some l \<Rightarrow> [UpClose l 1000 newClientReason])
             @ (if \<not> isConnectingToYahoo (roomHeap s r) \<and> ctor (yahooWebSocketUrl (roomHeap s r))
                then [Dial (nextLink s) (yahooWebSocketUrl (roomHeap s r))] else [])
             @ [DownSend ws (room_joined (roomId (roomHeap s r)) False
                  (length (mapSet ws (cid, dp) (clients (roomHeap s r)))) dp)]"
proof -
  note b = beforeConnect_forced [OF assms, of ws cid dp]
  note c = connect_after_drop [OF b(2), of ctor]
  show ?thesis
    by (simp add: addClient_def emit_def Let_def c b)
qed

lemma addClient_forced_dials:
  assumes "0 < length (clients (roomHeap s r)) \<or> linkOpen r s"
    and "\<not> isConnectingToYahoo (roomHeap s r)" and "ctor (yahooWebSocketUrl (roomHeap s r))"
  shows "yahooWs (roomHeap (addClient ctor r ws cid dp s) r) = Some (nextLink s)"
    and "upstream (addClient ctor r ws cid dp s) (nextLink s) = CONNECTING"
    and "owner (addClient ctor r ws cid dp s) (nextLink s) = r"
    and "nextLink (addClient ctor r ws cid dp s) = Suc (nextLink s)"
    and "leagueId (roomHeap (addClient ctor r ws cid dp s) r) = leagueId (roomHeap s r)"
    and "draftPosition (roomHeap (addClient ctor r ws cid dp s) r) = draftPosition (roomHeap s r)"
    and "platformUserId (roomHeap (addClient ctor r ws cid dp s) r) = platformUserId (roomHeap s r)"
    and "rooms (addClient ctor r ws cid dp s) = rooms s"
    and "nextRoom (addClient ctor r ws cid dp s) = nextRoom s"
proof -
  note b = beforeConnect_forced [OF assms(1), of ws cid dp]
  note c = connect_after_drop [OF b(2), of ctor]
  have nc: "\<not> isConnectingToYahoo (roomHeap (beforeConnect r ws cid dp s) r)"
    "ctor (yahooWebSocketUrl (roomHeap (beforeConnect r ws cid dp s) r))"
    using assms by (simp_all add: b)
  note d = connect_dials [where ctor = ctor, OF b(2) nc]
  show "yahooWs (roomHeap (addClient ctor r ws cid dp s) r) = Some (nextLink s)"
    and "upstream (addClient ctor r ws cid dp s) (nextLink s) = CONNECTING"
    and "owner (addClient ctor r ws cid dp s) (nextLink s) = r"
    and "nextLink (addClient ctor r ws cid dp s) = Suc (nextLink s)"
    and "leagueId (roomHeap (addClient ctor r ws cid dp s) r) = leagueId (roomHeap s r)"
    and "draftPosition (roomHeap (addClient ctor r ws cid dp s) r) = draftPosition (roomHeap s r)"
    and "platformUserId (roomHeap (addClient ctor r ws cid dp s) r) = platformUserId (roomHeap s r)"
    and "rooms (addClient ctor r ws cid dp s) = rooms s"
    and "nextRoom (addClient ctor r ws cid dp s) = nextRoom s"
    using d c b by (simp_all add: addClient_def emit_def Let_def)
qed

lemma connected_facts:
  "yahooWs (roomHeap connected 0) = Some 0"
  "\<not> isConnectingToYahoo (roomHeap connected 0)"
  "yahooWebSocketUrl (roomHeap connected 0) = ''wss://u''"
  "roomId (roomHeap connected 0) = ''12345''"
  "clients (roomHeap connected 0) = [(10, ''client-a'', 1)]"
  "nextLink connected = 1"
  "rooms connected ''12345'' = Some 0"
  "upstream connected 0 = OPEN"
  "cleanupTimeout (roomHeap connected 0) = None"
  by (simp_all add: connected_state newRoom_def)

lemma connected_forced: "0 < length (clients (roomHeap connected 0)) \<or> linkOpen 0 connected"
  by (simp add: connected_facts)

text \<open>
  C2, as amended. When \<open>addClient\<close> is called on a Room that has a client or holds an
  open link, then before \<open>connectToYahoo\<close> is called: the link the Room holds (if it
  holds one) is marked intentionally disconnected, closed with code 1000 and reason
  \<open>New client joined - forcing reconnection\<close> (capital N, ASCII hyphen) and dropped,
  and \<open>hasJoined\<close> and \<open>isIntentionalDisconnect\<close> are false. The close is the first new
  entry of the trace; a dial, if there is one, comes after it.
\<close>

theorem addClient_forces_reinit:
  assumes "0 < length (clients (roomHeap s r)) \<or> linkOpen r s"
  shows "(case yahooWs (roomHeap s r) of
            None \<Rightarrow> trace (beforeConnect r ws cid dp s) = trace s
          | Some l \<Rightarrow>
              trace (beforeConnect r ws cid dp s)
                = trace s @ [UpClose l 1000 ''New client joined - forcing reconnection'']
              \<and> forceReinit r (cancelCleanup r s)
                  = resetConnectionState r
                      (updRoom r (\<lambda>rm. rm\<lparr>yahooWs := None\<rparr>)
                         (closeLink l 1000 ''New client joined - forcing reconnection''
                            (updRoom r (\<lambda>rm. rm\<lparr>isIntentionalDisconnect := True\<rparr>)
                               (cancelCleanup r s)))))
         \<and> yahooWs (roomHeap (beforeConnect r ws cid dp s) r) = None
         \<and> hasJoined (roomHeap (beforeConnect r ws cid dp s) r) = False
         \<and> isIntentionalDisconnect (roomHeap (beforeConnect r ws cid dp s) r) = False
         \<and> addClient ctor r ws cid dp s
             = emit (DownSend ws (room_joined (roomId (roomHeap s r)) False
                       (length (mapSet ws (cid, dp) (clients (roomHeap s r)))) dp))
                 (fst (connectToYahoo ctor r (beforeConnect r ws cid dp s)))
         \<and> trace (addClient ctor r ws cid dp s)
             = trace (beforeConnect r ws cid dp s)
               @ (if \<not> isConnectingToYahoo (roomHeap s r) \<and> ctor (yahooWebSocketUrl (roomHeap s r))
                  then [Dial (nextLink s) (yahooWebSocketUrl (roomHeap s r))] else [])
               @ [DownSend ws (room_joined (roomId (roomHeap s r)) False
                    (length (mapSet ws (cid, dp) (clients (roomHeap s r)))) dp)]"
proof -
  note b = beforeConnect_forced [OF assms, of ws cid dp]
  note c = connect_after_drop [OF b(2), of ctor]
  have forced: "0 < length (clients (roomHeap (cancelCleanup r s) r)) \<or> linkOpen r (cancelCleanup r s)"
    using assms by simp
  have 1: "(case yahooWs (roomHeap s r) of
            None \<Rightarrow> trace (beforeConnect r ws cid dp s) = trace s
          | Some l \<Rightarrow>
              trace (beforeConnect r ws cid dp s)
                = trace s @ [UpClose l 1000 ''New client joined - forcing reconnection'']
              \<and> forceReinit r (cancelCleanup r s)
                  = resetConnectionState r
                      (updRoom r (\<lambda>rm. rm\<lparr>yahooWs := None\<rparr>)
                         (closeLink l 1000 ''New client joined - forcing reconnection''
                            (updRoom r (\<lambda>rm. rm\<lparr>isIntentionalDisconnect := True\<rparr>)
                               (cancelCleanup r s)))))"
    using forced
    by (simp add: b(1) newClientReason_def forceReinit_def dropLink_def split: option.split)
  have 5: "addClient ctor r ws cid dp s
             = emit (DownSend ws (room_joined (roomId (roomHeap s r)) False
                       (length (mapSet ws (cid, dp) (clients (roomHeap s r)))) dp))
                 (fst (connectToYahoo ctor r (beforeConnect r ws cid dp s)))"
    by (simp add: addClient_def Let_def c b)
  have 6: "trace (addClient ctor r ws cid dp s)
             = trace (beforeConnect r ws cid dp s)
               @ (if \<not> isConnectingToYahoo (roomHeap s r) \<and> ctor (yahooWebSocketUrl (roomHeap s r))
                  then [Dial (nextLink s) (yahooWebSocketUrl (roomHeap s r))] else [])
               @ [DownSend ws (room_joined (roomId (roomHeap s r)) False
                    (length (mapSet ws (cid, dp) (clients (roomHeap s r)))) dp)]"
    by (simp add: addClient_forced_trace [OF assms] b(1))
  show ?thesis
    using 1 b(2) b(3) b(4) 5 6 by blast
qed

text \<open>
  Witness for C2: a second client is added to the Room of \<open>connected\<close>, which has one
  client and an open link.
\<close>

theorem addClient_forces_reinit_witness:
  "(0 < length (clients (roomHeap connected 0)) \<or> linkOpen 0 connected)
   \<and> yahooWs (roomHeap connected 0) = Some 0
   \<and> trace (beforeConnect 0 11 ''client-b'' 3 connected)
       = trace connected @ [UpClose 0 1000 ''New client joined - forcing reconnection'']
   \<and> hasJoined (roomHeap (beforeConnect 0 11 ''client-b'' 3 connected) 0) = False
   \<and> isIntentionalDisconnect (roomHeap (beforeConnect 0 11 ''client-b'' 3 connected) 0) = False
   \<and> trace (addClient anyUrl 0 11 ''client-b'' 3 connected)
       = trace (beforeConnect 0 11 ''client-b'' 3 connected)
         @ [Dial 1 ''wss://u'', DownSend 11 (room_joined ''12345'' False 2 3)]"
proof -
  note w = addClient_forces_reinit [OF connected_forced, of 11 "''client-b''" 3 anyUrl]
  have a: "trace (beforeConnect 0 11 ''client-b'' 3 connected)
       = trace connected @ [UpClose 0 1000 ''New client joined - forcing reconnection'']"
    using w [THEN conjunct1] by (simp add: connected_facts)
  have b: "hasJoined (roomHeap (beforeConnect 0 11 ''client-b'' 3 connected) 0) = False"
    "isIntentionalDisconnect (roomHeap (beforeConnect 0 11 ''client-b'' 3 connected) 0) = False"
    using w by blast+
  have e: "trace (addClient anyUrl 0 11 ''client-b'' 3 connected)
       = trace (beforeConnect 0 11 ''client-b'' 3 connected)
         @ [Dial 1 ''wss://u'', DownSend 11 (room_joined ''12345'' False 2 3)]"
    using w [THEN conjunct2, THEN conjunct2, THEN conjunct2, THEN conjunct2, THEN conjunct2]
    by (simp add: connected_facts anyUrl_def)
  show ?thesis
    using connected_forced connected_facts(1) a b e by blast
qed

text \<open>
  Counterexample to C2 as stated: the reason that \<open>addClient\<close> passes to \<open>close\<close> is
  \<open>New client joined - forcing reconnection\<close>, which is not the text of the claim
  (\<open>new client joined\<close>, an em dash, \<open>forcing reconnection\<close>); no close with the
  claim's reason is in the trace.
\<close>

theorem close_reason_differs_from_spec:
  "trace (addClient anyUrl 0 11 ''client-b'' 3 connected)
     = trace connected @ [UpClose 0 1000 ''New client joined - forcing reconnection'',
                          Dial 1 ''wss://u'', DownSend 11 (room_joined ''12345'' False 2 3)]
   \<and> ''New client joined - forcing reconnection'' \<noteq> reasonInSpec
   \<and> UpClose 0 1000 reasonInSpec \<notin> set (trace (addClient anyUrl 0 11 ''client-b'' 3 connected))"
proof -
  have t: "trace (addClient anyUrl 0 11 ''client-b'' 3 connected)
     = trace connected @ [UpClose 0 1000 ''New client joined - forcing reconnection'',
                          Dial 1 ''wss://u'', DownSend 11 (room_joined ''12345'' False 2 3)]"
    by (simp add: addClient_forced_trace [OF connected_forced] connected_facts anyUrl_def
        newClientReason_def)
  have n: "''New client joined - forcing reconnection'' \<noteq> reasonInSpec"
    by (simp add: reasonInSpec_def)
  have m: "UpClose 0 1000 reasonInSpec
             \<notin> set (trace (addClient anyUrl 0 11 ''client-b'' 3 connected))"
    unfolding t by (simp add: connected_state reasonInSpec_def)
  show ?thesis using t n m by blast
qed

lemma addClient_clients:
  "clients (roomHeap (addClient ctor r ws cid dp s) r) = mapSet ws (cid, dp) (clients (roomHeap s r))"
proof -
  have f: "clients (roomHeap (forceReinit r p) r) = clients (roomHeap p r)" for p
    by (simp add: forceReinit_def resetConnectionState_def dropLink_def closeLink_def
        emit_def updRoom_def split: option.split)
  have c: "clients (roomHeap (fst (connectToYahoo ctor r p)) r) = clients (roomHeap p r)" for p
    by (simp add: connectToYahoo_def emit_def updRoom_def Let_def)
  show ?thesis
    by (simp add: addClient_def Let_def emit_def c) (simp add: beforeConnect_def updRoom_def f)
qed

lemma onConnection_existing_room:
  assumes "q_leagueId q = Some lid" and "lid \<noteq> []"
    and "q_websocketUrl q = Some url" and "url \<noteq> []"
    and "parseInt (strOr (q_draftPosition q) ''0'') = Some dp" and "dp \<noteq> 0"
    and "rooms s lid = Some r" and "yahooWebSocketUrl (roomHeap s r) = url"
  shows "onConnection ctor ws cid q s
           = (addClient ctor r ws cid dp s)
               \<lparr>clientConnections := (clientConnections (addClient ctor r ws cid dp s))(cid \<mapsto> (ws, r)),
                session := (session (addClient ctor r ws cid dp s))(ws \<mapsto> (cid, r))\<rparr>"
  using assms
  by (simp add: onConnection_def falsyStr_def falsyNum_def strOr_def numOr_def
      getOrCreateRoom_def Let_def)

text \<open>
  C1, as amended. When a client with a valid handshake joins a Room that is
  registered for its league with the same upstream URL, holds an open link and has no
  dial in progress, the link is closed with code 1000 and reason
  \<open>New client joined - forcing reconnection\<close>, a new link is dialed to the Room's URL,
  and the client gets \<open>room_joined\<close>. The join puts the client's draft position in
  the client set only: the league, the draft position and the platform user id that
  the Room has stored are the same after the join as before it. When the new link
  opens, the join frame sent on it carries these stored values, whatever the new
  client's are. (Draft positions are safe integers.)
\<close>

theorem second_client_forces_reinit:
  assumes "q_leagueId q = Some lid" and "lid \<noteq> []"
    and "q_websocketUrl q = Some url" and "url \<noteq> []"
    and "parseInt (strOr (q_draftPosition q) ''0'') = Some dp" and "dp \<noteq> 0"
    and "rooms s lid = Some r" and "yahooWebSocketUrl (roomHeap s r) = url"
    and "yahooWs (roomHeap s r) = Some l" and "upstream s l = OPEN"
    and "\<not> isConnectingToYahoo (roomHeap s r)" and "ctor url"
    and "isSafeInteger dp" and "isSafeInteger (draftPosition (roomHeap s r))"
  shows "trace (onConnection ctor ws cid q s)
           = trace s @ [UpClose l 1000 ''New client joined - forcing reconnection'',
                        Dial (nextLink s) url,
                        DownSend ws (room_joined (roomId (roomHeap s r)) False
                          (length (mapSet ws (cid, dp) (clients (roomHeap s r)))) dp)]
         \<and> rooms (onConnection ctor ws cid q s) lid = Some r
         \<and> yahooWs (roomHeap (onConnection ctor ws cid q s) r) = Some (nextLink s)
         \<and> clients (roomHeap (onConnection ctor ws cid q s) r)
             = mapSet ws (cid, dp) (clients (roomHeap s r))
         \<and> leagueId (roomHeap (onConnection ctor ws cid q s) r) = leagueId (roomHeap s r)
         \<and> draftPosition (roomHeap (onConnection ctor ws cid q s) r)
             = draftPosition (roomHeap s r)
         \<and> platformUserId (roomHeap (onConnection ctor ws cid q s) r)
             = platformUserId (roomHeap s r)
         \<and> trace (step ctor (onConnection ctor ws cid q s) (UpstreamOpen (nextLink s)))
             = trace (onConnection ctor ws cid q s)
               @ UpSend (nextLink s)
                   (''8|'' @ leagueId (roomHeap s r) @ ''|''
                      @ numberToString (draftPosition (roomHeap s r)) @ ''|''
                      @ encodeURIComponent
                          (''YahooFantasyProxy/1.0 ('' @ platformUserId (roomHeap s r) @ '')'')
                      @ ''|'')
               # map (\<lambda>w. DownSend w (yahoo_connected ''Connected to Yahoo WebSocket''))
                   (openClients r (onConnection ctor ws cid q s))"
proof -
  let ?a = "addClient ctor r ws cid dp s"
  let ?s' = "onConnection ctor ws cid q s"
  have forced: "0 < length (clients (roomHeap s r)) \<or> linkOpen r s"
    using assms(9,10) by (simp add: linkOpen_def)
  have ok: "ctor (yahooWebSocketUrl (roomHeap s r))"
    using assms(8,12) by simp
  have eq: "?s' = ?a\<lparr>clientConnections := (clientConnections ?a)(cid \<mapsto> (ws, r)),
                      session := (session ?a)(ws \<mapsto> (cid, r))\<rparr>"
    by (rule onConnection_existing_room [OF assms(1-8)])
  note d = addClient_forced_dials [where ctor = ctor and ws = ws and cid = cid and dp = dp,
      OF forced assms(11) ok]
  have 1: "trace ?s' = trace s @ [UpClose l 1000 ''New client joined - forcing reconnection'',
                        Dial (nextLink s) url,
                        DownSend ws (room_joined (roomId (roomHeap s r)) False
                          (length (mapSet ws (cid, dp) (clients (roomHeap s r)))) dp)]"
    using assms(8,9,11,12)
    by (simp add: eq addClient_forced_trace [OF forced] newClientReason_def)
  have 2: "rooms ?s' lid = Some r"
    using assms(7) by (simp add: eq d)
  have 3: "yahooWs (roomHeap ?s' r) = Some (nextLink s)"
    by (simp add: eq d)
  have 5: "clients (roomHeap ?s' r) = mapSet ws (cid, dp) (clients (roomHeap s r))"
    by (simp add: eq addClient_clients)
  have 6: "leagueId (roomHeap ?s' r) = leagueId (roomHeap s r)"
    "draftPosition (roomHeap ?s' r) = draftPosition (roomHeap s r)"
    "platformUserId (roomHeap ?s' r) = platformUserId (roomHeap s r)"
    by (simp_all add: eq d)
  have pre: "nextLink s < nextLink ?s'" "upstream ?s' (nextLink s) = CONNECTING"
    "owner ?s' (nextLink s) = r"
    by (simp_all add: eq d)
  have j: "joinMessage (roomHeap ?s' r)
             = ''8|'' @ leagueId (roomHeap s r) @ ''|''
                      @ numberToString (draftPosition (roomHeap s r)) @ ''|''
                      @ encodeURIComponent
                          (''YahooFantasyProxy/1.0 ('' @ platformUserId (roomHeap s r) @ '')'')
                      @ ''|''"
    by (simp add: joinMessage_def userAgent_def eq d)
  have 4: "trace (step ctor ?s' (UpstreamOpen (nextLink s)))
             = trace ?s'
               @ UpSend (nextLink s)
                   (''8|'' @ leagueId (roomHeap s r) @ ''|''
                      @ numberToString (draftPosition (roomHeap s r)) @ ''|''
                      @ encodeURIComponent
                          (''YahooFantasyProxy/1.0 ('' @ platformUserId (roomHeap s r) @ '')'')
                      @ ''|'')
               # map (\<lambda>w. DownSend w (yahoo_connected ''Connected to Yahoo WebSocket''))
                   (openClients r ?s')"
    using open_current_link_trace(1) [OF pre 3, of ctor] j by simp
  show ?thesis
    using 1 2 3 5 6 4 by blast
qed

text \<open>
  Witness for C1: the second client of scenario S3 (draft position 3, user-b) joins
  the Room of \<open>connected\<close>, which has stored position 1 and user-a; the join frame on
  the new link is that of user-a at position 1.
\<close>

theorem second_client_forces_reinit_witness:
  "q_leagueId userB = Some ''12345'' \<and> q_websocketUrl userB = Some ''wss://u''
   \<and> parseInt (strOr (q_draftPosition userB) ''0'') = Some 3
   \<and> rooms connected ''12345'' = Some 0
   \<and> yahooWebSocketUrl (roomHeap connected 0) = ''wss://u''
   \<and> yahooWs (roomHeap connected 0) = Some 0 \<and> upstream connected 0 = OPEN
   \<and> \<not> isConnectingToYahoo (roomHeap connected 0) \<and> anyUrl ''wss://u''
   \<and> isSafeInteger 3 \<and> isSafeInteger (draftPosition (roomHeap connected 0))
   \<and> draftPosition (roomHeap connected 0) = 1
   \<and> platformUserId (roomHeap connected 0) = ''user-a''
   \<and> trace (onConnection anyUrl 11 ''client-b'' userB connected)
       = trace connected @ [UpClose 0 1000 ''New client joined - forcing reconnection'',
                            Dial 1 ''wss://u'', DownSend 11 (room_joined ''12345'' False 2 3)]
   \<and> draftPosition (roomHeap (onConnection anyUrl 11 ''client-b'' userB connected) 0) = 1
   \<and> platformUserId (roomHeap (onConnection anyUrl 11 ''client-b'' userB connected) 0)
       = ''user-a''
   \<and> trace (step anyUrl (onConnection anyUrl 11 ''client-b'' userB connected) (UpstreamOpen 1))
       = trace (onConnection anyUrl 11 ''client-b'' userB connected)
         @ UpSend 1 ''8|12345|1|YahooFantasyProxy%2F1.0%20(user-a)|''
         # map (\<lambda>w. DownSend w (yahoo_connected ''Connected to Yahoo WebSocket''))
             (openClients 0 (onConnection anyUrl 11 ''client-b'' userB connected))"
proof -
  have q: "q_leagueId userB = Some ''12345''" "''12345'' \<noteq> []"
    "q_websocketUrl userB = Some ''wss://u''" "''wss://u'' \<noteq> []"
    "parseInt (strOr (q_draftPosition userB) ''0'') = Some 3" "(3::int) \<noteq> 0"
    by (simp_all add: userB_def strOr_def parseInt_examples)
  have u: "anyUrl ''wss://u''"
    by (simp add: anyUrl_def)
  have v: "draftPosition (roomHeap connected 0) = 1"
    "platformUserId (roomHeap connected 0) = ''user-a''"
    by (simp_all add: connected_state newRoom_def)
  have i: "isSafeInteger 3" "isSafeInteger (draftPosition (roomHeap connected 0))"
    by (simp_all add: v isSafeInteger_def)
  note w = second_client_forces_reinit [where ctor = anyUrl and ws = 11 and cid = "''client-b''",
      OF q connected_facts(7,3,1,8,2) u i]
  have a: "trace (onConnection anyUrl 11 ''client-b'' userB connected)
       = trace connected @ [UpClose 0 1000 ''New client joined - forcing reconnection'',
                            Dial 1 ''wss://u'', DownSend 11 (room_joined ''12345'' False 2 3)]"
    using w [THEN conjunct1] by (simp add: connected_facts)
  have k: "draftPosition (roomHeap (onConnection anyUrl 11 ''client-b'' userB connected) 0) = 1"
    using w [THEN conjunct2, THEN conjunct2, THEN conjunct2, THEN conjunct2, THEN conjunct2,
        THEN conjunct1]
    by (simp add: v)
  have k': "platformUserId (roomHeap (onConnection anyUrl 11 ''client-b'' userB connected) 0)
       = ''user-a''"
    using w [THEN conjunct2, THEN conjunct2, THEN conjunct2, THEN conjunct2, THEN conjunct2,
        THEN conjunct2, THEN conjunct1]
    by (simp add: v)
  have b: "trace (step anyUrl (onConnection anyUrl 11 ''client-b'' userB connected) (UpstreamOpen 1))
       = trace (onConnection anyUrl 11 ''client-b'' userB connected)
         @ UpSend 1 ''8|12345|1|YahooFantasyProxy%2F1.0%20(user-a)|''
         # map (\<lambda>w. DownSend w (yahoo_connected ''Connected to Yahoo WebSocket''))
             (openClients 0 (onConnection anyUrl 11 ''client-b'' userB connected))"
    using w [THEN conjunct2, THEN conjunct2, THEN conjunct2, THEN conjunct2, THEN conjunct2,
        THEN conjunct2, THEN conjunct2]
    by (simp add: connected_facts) (simp add: connected_state newRoom_def string_defs)
  show ?thesis
    using q(1,3,5) connected_facts(7,3,1,8,2) u i v a k k' b by blast
qed

text \<open>
  Counterexample to C1 as stated (scenario S3): the first client joined league 12345
  at position 1 as user-a; a second client joins the same Room at position 3 as user-b,
  and the new link opens. The join frame on the new link carries position 1 and
  user-a; the frame with position 3 and user-b, which the claim expects, is never
  sent.
\<close>

theorem join_frame_of_second_client:
  "trace (run anyUrl connected [Connection 11 ''client-b'' userB, UpstreamOpen 1])
     = trace connected
       @ [UpClose 0 1000 ''New client joined - forcing reconnection'', Dial 1 ''wss://u'',
          DownSend 11 (room_joined ''12345'' False 2 3),
          UpSend 1 ''8|12345|1|YahooFantasyProxy%2F1.0%20(user-a)|'',
          DownSend 10 (yahoo_connected ''Connected to Yahoo WebSocket''),
          DownSend 11 (yahoo_connected ''Connected to Yahoo WebSocket'')]
   \<and> UpSend 1 ''8|12345|3|YahooFantasyProxy%2F1.0%20(user-b)|''
       \<notin> set (trace (run anyUrl connected [Connection 11 ''client-b'' userB, UpstreamOpen 1]))"
proof -
  have r: "run anyUrl connected [Connection 11 ''client-b'' userB, UpstreamOpen 1]
             = step anyUrl secondJoined (UpstreamOpen 1)"
    by (simp add: run_def secondJoined_def)
  have t: "trace (step anyUrl secondJoined (UpstreamOpen 1))
     = trace connected
       @ [UpClose 0 1000 ''New client joined - forcing reconnection'', Dial 1 ''wss://u'',
          DownSend 11 (room_joined ''12345'' False 2 3),
          UpSend 1 ''8|12345|1|YahooFantasyProxy%2F1.0%20(user-a)|'',
          DownSend 10 (yahoo_connected ''Connected to Yahoo WebSocket''),
          DownSend 11 (yahoo_connected ''Connected to Yahoo WebSocket'')]"
    by (simp add: secondJoined_state connected_state upstreamOpen_def room_defs string_defs Let_def)
  have m: "UpSend 1 ''8|12345|3|YahooFantasyProxy%2F1.0%20(user-b)|''
       \<notin> set (trace (step anyUrl secondJoined (UpstreamOpen 1)))"
    unfolding t by (simp add: connected_state)
  show ?thesis
    unfolding r using t m by blast
qed

section \<open>Retirement of a Room\<close>

lemma removeClient_emptying:
  assumes "mapDelete ws (clients (roomHeap s r)) = []"
  shows "removeClient r ws s
           = s\<lparr>roomHeap := (roomHeap s)(r := (roomHeap s r)\<lparr>clients := [],
                    cleanupTimeout := Some (nextTimer s)\<rparr>),
                timeouts := (case cleanupTimeout (roomHeap s r) of
                               None \<Rightarrow> timeouts s
                             | Some t0 \<Rightarrow> (timeouts s)(t0 := None))
                            (nextTimer s \<mapsto> (clock s + 2000, r)),
                nextTimer := Suc (nextTimer s)\<rparr>"
  using assms
  by (simp add: removeClient_def updRoom_def Let_def split: option.split)

lemma timer_set:
  assumes "mapDelete ws (clients (roomHeap s r)) = []"
  shows "cleanupTimeout (roomHeap (removeClient r ws s) r) = Some (nextTimer s)"
    and "timeouts (removeClient r ws s) (nextTimer s) = Some (clock s + 2000, r)"
    and "cleanupTimeout (roomHeap s r) = Some t0 \<Longrightarrow> t0 \<noteq> nextTimer s
           \<Longrightarrow> timeouts (removeClient r ws s) t0 = None"
    and "trace (removeClient r ws s) = trace s"
    and "rooms (removeClient r ws s) = rooms s"
    and "yahooWs (roomHeap (removeClient r ws s) r) = yahooWs (roomHeap s r)"
    and "clients (roomHeap (removeClient r ws s) r) = []"
    and "yahooWebSocketUrl (roomHeap (removeClient r ws s) r) = yahooWebSocketUrl (roomHeap s r)"
  by (simp_all add: removeClient_emptying [OF assms])

lemma timer_not_early:
  assumes "mapDelete ws (clients (roomHeap s r)) = []" and "d < 2000"
  shows "step ctor (step ctor (removeClient r ws s) (Advance d)) (TimeoutFired (nextTimer s))
           = step ctor (removeClient r ws s) (Advance d)"
  using assms(2) by (simp add: removeClient_emptying [OF assms(1)] timeoutFired_def)

lemma disconnect_proj:
  "trace (disconnectFromYahoo r s)
     = trace s @ (case yahooWs (roomHeap s r) of None \<Rightarrow> []
                  | Some l \<Rightarrow> [UpClose l 1000 ''No clients remaining in room''])"
  "yahooWs (roomHeap (disconnectFromYahoo r s) r) = yahooWs (roomHeap s r)"
  "heartbeatInterval (roomHeap (disconnectFromYahoo r s) r) = heartbeatInterval (roomHeap s r)"
  "cleanupTimeout (roomHeap (disconnectFromYahoo r s) r) = cleanupTimeout (roomHeap s r)"
  "roomId (roomHeap (disconnectFromYahoo r s) r) = roomId (roomHeap s r)"
  "rooms (disconnectFromYahoo r s) = rooms s"
  "timeouts (disconnectFromYahoo r s) = timeouts s"
  by (simp_all add: disconnectFromYahoo_def closeLink_def emit_def updRoom_def Let_def
      split: option.split)

lemma stopHeartbeat_proj:
  "trace (stopHeartbeat r s) = trace s"
  "yahooWs (roomHeap (stopHeartbeat r s) r) = yahooWs (roomHeap s r)"
  "heartbeatInterval (roomHeap (stopHeartbeat r s) r) = None"
  "cleanupTimeout (roomHeap (stopHeartbeat r s) r) = cleanupTimeout (roomHeap s r)"
  "roomId (roomHeap (stopHeartbeat r s) r) = roomId (roomHeap s r)"
  "rooms (stopHeartbeat r s) = rooms s"
  "timeouts (stopHeartbeat r s) = timeouts s"
  by (simp_all add: stopHeartbeat_def updRoom_def split: option.split)

lemma cancelCleanup_more:
  "heartbeatInterval (roomHeap (cancelCleanup r s) r) = heartbeatInterval (roomHeap s r)"
  "timeouts (cancelCleanup r s)
     = (case cleanupTimeout (roomHeap s r) of None \<Rightarrow> timeouts s
        | Some t \<Rightarrow> (timeouts s)(t := None))"
  by (simp_all add: cancelCleanup_def updRoom_def split: option.split)

lemma cleanup_proj:
  "trace (cleanup r s)
     = trace s @ (case yahooWs (roomHeap s r) of None \<Rightarrow> []
                  | Some l \<Rightarrow> [UpClose l 1000 ''Room cleanup''])"
  "yahooWs (roomHeap (cleanup r s) r) = None"
  "heartbeatInterval (roomHeap (cleanup r s) r) = None"
  "cleanupTimeout (roomHeap (cleanup r s) r) = None"
  "clients (roomHeap (cleanup r s) r) = []"
  "roomId (roomHeap (cleanup r s) r) = roomId (roomHeap s r)"
  "rooms (cleanup r s) = rooms s"
  "timeouts (cleanup r s)
     = (case cleanupTimeout (roomHeap s r) of None \<Rightarrow> timeouts s
        | Some t \<Rightarrow> (timeouts s)(t := None))"
proof -
  let ?s1 = "updRoom r (\<lambda>rm. rm\<lparr>isIntentionalDisconnect := True, hasJoined := False\<rparr>) s"
  let ?s2 = "cancelCleanup r (stopHeartbeat r ?s1)"
  have c: "cleanup r s
             = updRoom r (\<lambda>rm. rm\<lparr>clients := []\<rparr>)
                 (case yahooWs (roomHeap ?s2 r) of
                    None \<Rightarrow> ?s2
                  | Some l \<Rightarrow> updRoom r (\<lambda>rm. rm\<lparr>yahooWs := None\<rparr>)
                               (closeLink l 1000 ''Room cleanup'' ?s2))"
    by (simp add: cleanup_def Let_def)
  have p: "trace ?s2 = trace s" "yahooWs (roomHeap ?s2 r) = yahooWs (roomHeap s r)"
    "heartbeatInterval (roomHeap ?s2 r) = None" "cleanupTimeout (roomHeap ?s2 r) = None"
    "roomId (roomHeap ?s2 r) = roomId (roomHeap s r)" "rooms ?s2 = rooms s"
    "timeouts ?s2 = (case cleanupTimeout (roomHeap s r) of None \<Rightarrow> timeouts s
        | Some t \<Rightarrow> (timeouts s)(t := None))"
    by (simp_all add: cancelCleanup_more stopHeartbeat_proj updRoom_def split: option.split)
  show "trace (cleanup r s)
     = trace s @ (case yahooWs (roomHeap s r) of None \<Rightarrow> []
                  | Some l \<Rightarrow> [UpClose l 1000 ''Room cleanup''])"
    and "yahooWs (roomHeap (cleanup r s) r) = None"
    and "heartbeatInterval (roomHeap (cleanup r s) r) = None"
    and "cleanupTimeout (roomHeap (cleanup r s) r) = None"
    and "clients (roomHeap (cleanup r s) r) = []"
    and "roomId (roomHeap (cleanup r s) r) = roomId (roomHeap s r)"
    and "rooms (cleanup r s) = rooms s"
    and "timeouts (cleanup r s)
     = (case cleanupTimeout (roomHeap s r) of None \<Rightarrow> timeouts s
        | Some t \<Rightarrow> (timeouts s)(t := None))"
    unfolding c using p
    by (cases "yahooWs (roomHeap s r)"; simp add: updRoom_def closeLink_def emit_def)+
qed

lemma callback_proj:
  "rooms (cleanupTimerCallback r s) = (rooms s)(roomId (roomHeap s r) := None)"
  "trace (cleanupTimerCallback r s)
     = trace s @ (case yahooWs (roomHeap s r) of
                    None \<Rightarrow> []
                  | Some l \<Rightarrow> [UpClose l 1000 ''No clients remaining in room'',
                               UpClose l 1000 ''Room cleanup''])"
  "yahooWs (roomHeap (cleanupTimerCallback r s) r) = None"
  "heartbeatInterval (roomHeap (cleanupTimerCallback r s) r) = None"
  "cleanupTimeout (roomHeap (cleanupTimerCallback r s) r) = None"
  "clients (roomHeap (cleanupTimerCallback r s) r) = []"
  "timeouts (cleanupTimerCallback r s)
     = (case cleanupTimeout (roomHeap s r) of None \<Rightarrow> timeouts s
        | Some t \<Rightarrow> (timeouts s)(t := None))"
  by (simp_all add: cleanupTimerCallback_def Let_def cleanup_proj disconnect_proj
      split: option.split)

lemma callback_frame:
  "r' \<noteq> r \<Longrightarrow> roomHeap (cleanupTimerCallback r s) r' = roomHeap s r'"
  "session (cleanupTimerCallback r s) = session s"
  "downstream (cleanupTimerCallback r s) = downstream s"
  by (simp_all add: cleanupTimerCallback_def cleanup_def disconnectFromYahoo_def cancelCleanup_def
      stopHeartbeat_def closeLink_def emit_def updRoom_def Let_def split: option.split)

lemma timer_expiry:
  assumes "mapDelete ws (clients (roomHeap s r)) = []" and "2000 \<le> d"
  shows "rooms (step ctor (step ctor (removeClient r ws s) (Advance d)) (TimeoutFired (nextTimer s)))
           = (rooms s)(roomId (roomHeap s r) := None)"
    and "trace (step ctor (step ctor (removeClient r ws s) (Advance d)) (TimeoutFired (nextTimer s)))
           = trace s @ (case yahooWs (roomHeap s r) of
                          None \<Rightarrow> []
                        | Some l \<Rightarrow> [UpClose l 1000 ''No clients remaining in room'',
                                     UpClose l 1000 ''Room cleanup''])"
    and "yahooWs (roomHeap (step ctor (step ctor (removeClient r ws s) (Advance d))
            (TimeoutFired (nextTimer s))) r) = None"
    and "cleanupTimeout (roomHeap (step ctor (step ctor (removeClient r ws s) (Advance d))
            (TimeoutFired (nextTimer s))) r) = None"
    and "heartbeatInterval (roomHeap (step ctor (step ctor (removeClient r ws s) (Advance d))
            (TimeoutFired (nextTimer s))) r) = None"
    and "timeouts (step ctor (step ctor (removeClient r ws s) (Advance d))
            (TimeoutFired (nextTimer s))) (nextTimer s) = None"
proof -
  let ?s2 = "step ctor (removeClient r ws s) (Advance d)"
  let ?s3 = "?s2\<lparr>timeouts := (timeouts ?s2)(nextTimer s := None)\<rparr>"
  have fire: "step ctor ?s2 (TimeoutFired (nextTimer s)) = cleanupTimerCallback r ?s3"
    using assms(2) by (simp add: removeClient_emptying [OF assms(1)] timeoutFired_def)
  have p: "rooms ?s3 = rooms s" "trace ?s3 = trace s"
    "yahooWs (roomHeap ?s3 r) = yahooWs (roomHeap s r)"
    "roomId (roomHeap ?s3 r) = roomId (roomHeap s r)"
    "cleanupTimeout (roomHeap ?s3 r) = Some (nextTimer s)"
    by (simp_all add: removeClient_emptying [OF assms(1)])
  show "rooms (step ctor ?s2 (TimeoutFired (nextTimer s))) = (rooms s)(roomId (roomHeap s r) := None)"
    and "trace (step ctor ?s2 (TimeoutFired (nextTimer s)))
           = trace s @ (case yahooWs (roomHeap s r) of
                          None \<Rightarrow> []
                        | Some l \<Rightarrow> [UpClose l 1000 ''No clients remaining in room'',
                                     UpClose l 1000 ''Room cleanup''])"
    and "yahooWs (roomHeap (step ctor ?s2 (TimeoutFired (nextTimer s))) r) = None"
    and "cleanupTimeout (roomHeap (step ctor ?s2 (TimeoutFired (nextTimer s))) r) = None"
    and "heartbeatInterval (roomHeap (step ctor ?s2 (TimeoutFired (nextTimer s))) r) = None"
    and "timeouts (step ctor ?s2 (TimeoutFired (nextTimer s))) (nextTimer s) = None"
    unfolding fire by (simp_all only: callback_proj p) simp_all
qed

lemma addClient_cancels_timer:
  assumes "mapDelete ws (clients (roomHeap s r)) = []"
  shows "cleanupTimeout (roomHeap (addClient ctor r ws' cid dp (removeClient r ws s)) r) = None
       \<and> timeouts (addClient ctor r ws' cid dp (removeClient r ws s)) (nextTimer s) = None
       \<and> rooms (addClient ctor r ws' cid dp (removeClient r ws s)) = rooms s
       \<and> nextRoom (addClient ctor r ws' cid dp (removeClient r ws s)) = nextRoom s
       \<and> trace (addClient ctor r ws' cid dp (removeClient r ws s))
           = trace s
             @ (case yahooWs (roomHeap s r) of
                  None \<Rightarrow> []
                | Some l \<Rightarrow> if upstream s l = OPEN then [UpClose l 1000 newClientReason] else [])
             @ (if \<not> isConnectingToYahoo (roomHeap s r) \<and> ctor (yahooWebSocketUrl (roomHeap s r))
                then [Dial (nextLink s) (yahooWebSocketUrl (roomHeap s r))] else [])
             @ [DownSend ws' (room_joined (roomId (roomHeap s r)) False 1 dp)]"
proof -
  let ?s1 = "removeClient r ws s"
  let ?c = "cancelCleanup r ?s1"
  have c: "?c = s\<lparr>roomHeap := (roomHeap s)(r := (roomHeap s r)\<lparr>clients := [],
                    cleanupTimeout := None\<rparr>),
                timeouts := ((case cleanupTimeout (roomHeap s r) of
                               None \<Rightarrow> timeouts s
                             | Some t0 \<Rightarrow> (timeouts s)(t0 := None))
                            (nextTimer s \<mapsto> (clock s + 2000, r)))(nextTimer s := None),
                nextTimer := Suc (nextTimer s)\<rparr>"
    by (simp add: removeClient_emptying [OF assms] cancelCleanup_def updRoom_def)
  have lo': "linkOpen r ?s1 = linkOpen r s"
    by (simp add: removeClient_emptying [OF assms] linkOpen_def split: option.split)
  show ?thesis
  proof (cases "linkOpen r s")
    case True
    then obtain l where l: "yahooWs (roomHeap s r) = Some l" "upstream s l = OPEN"
      by (auto simp: linkOpen_def split: option.splits)
    have f: "forceReinit r ?c
               = ?c\<lparr>roomHeap := (roomHeap ?c)(r := (roomHeap ?c r)\<lparr>yahooWs := None,
                        isIntentionalDisconnect := False, hasJoined := False\<rparr>),
                    upstream := (upstream s)(l := CLOSING),
                    trace := trace s @ [UpClose l 1000 newClientReason]\<rparr>"
    proof -
      have "forceReinit r ?c
              = resetConnectionState r (dropLink ''New client joined - forcing reconnection'' r ?c)"
        using True by (simp add: forceReinit_def lo')
      then show ?thesis
        using l
        by (simp add: resetConnectionState_def dropLink_def closeLink_def newClientReason_def
            afterClose_def emit_def updRoom_def c)
    qed
    show ?thesis
      unfolding addClient_def beforeConnect_def f
      using True l
      by (simp add: connectToYahoo_def linkOpen_def emit_def updRoom_def Let_def c)
  next
    case False
    have f: "forceReinit r ?c = ?c"
      using False by (simp add: forceReinit_def lo' timer_set [OF assms])
    have nl: "\<not> linkOpen r (updRoom r (\<lambda>rm. rm\<lparr>clients := mapSet ws' (cid, dp) (clients rm)\<rparr>) ?c)"
      using False by (simp add: c linkOpen_def updRoom_def split: option.splits)
    have e: "(case yahooWs (roomHeap s r) of
                  None \<Rightarrow> []
                | Some l \<Rightarrow> if upstream s l = OPEN then [UpClose l 1000 newClientReason] else [])
               = []"
      using False by (cases "yahooWs (roomHeap s r)") (simp_all add: linkOpen_def)
    show ?thesis
      unfolding addClient_def beforeConnect_def f e
      using False nl
      by (simp add: connectToYahoo_def emit_def Let_def) (simp add: c updRoom_def)
  qed
qed

lemma getOrCreateRoom_reuses:
  "rooms s lid = Some r \<Longrightarrow> yahooWebSocketUrl (roomHeap s r) = url
     \<Longrightarrow> getOrCreateRoom lid dp url uid s = (r, s)"
  by (simp add: getOrCreateRoom_def)

text \<open>
  C3. The code at the failing input. A client joins league 12345 with upstream URL
  \<open>wss://u\<close> (Room 0); a second client joins the same league with URL \<open>wss://v\<close>, so
  Room 0 is cleaned up and replaced in the Registry by Room 1; the first client
  disconnects, which starts the retirement timer of Room 0; two seconds later the
  timer fires. Before the timer fires the Registry holds Room 1, whose client is
  connected. The callback of Room 0 deletes the Registry entry of the league id: Room
  1 is no longer registered although its client set still holds the open session of
  the second client.
\<close>

theorem stale_timer_removes_replacement_room:
  "orphanTimer = run anyUrl start [Connection 10 ''client-a'' userA,
     Connection 11 ''client-c'' userC, ClientClosed 10, Advance 2000]
   \<and> rooms orphanTimer ''12345'' = Some 1
   \<and> clients (roomHeap orphanTimer 1) = [(11, ''client-c'', 2)]
   \<and> downstream orphanTimer 11 = OPEN
   \<and> timeouts orphanTimer 0 = Some (2000, 0)
   \<and> rooms (step anyUrl orphanTimer (TimeoutFired 0)) ''12345'' = None
   \<and> clients (roomHeap (step anyUrl orphanTimer (TimeoutFired 0)) 1) = [(11, ''client-c'', 2)]
   \<and> session (step anyUrl orphanTimer (TimeoutFired 0)) 11 = Some (''client-c'', 1)
   \<and> downstream (step anyUrl orphanTimer (TimeoutFired 0)) 11 = OPEN"
proof -
  let ?s = "orphanTimer\<lparr>timeouts := (timeouts orphanTimer)(0 := None)\<rparr>"
  have h: "orphanTimer = run anyUrl start [Connection 10 ''client-a'' userA,
     Connection 11 ''client-c'' userC, ClientClosed 10, Advance 2000]"
    by (simp add: orphanTimer_def replaced_def dialing_def run_def)
  have b: "rooms orphanTimer ''12345'' = Some 1"
    "clients (roomHeap orphanTimer 1) = [(11, ''client-c'', 2)]"
    "downstream orphanTimer 11 = OPEN" "timeouts orphanTimer 0 = Some (2000, 0)"
    "session orphanTimer 11 = Some (''client-c'', 1)"
    "roomId (roomHeap orphanTimer 0) = ''12345''"
    by (simp_all add: orphanTimer_state newRoom_def)
  have fire: "step anyUrl orphanTimer (TimeoutFired 0) = cleanupTimerCallback 0 ?s"
    by (simp add: timeoutFired_def b) (simp add: orphanTimer_state)
  have a: "rooms (step anyUrl orphanTimer (TimeoutFired 0)) ''12345'' = None"
    "clients (roomHeap (step anyUrl orphanTimer (TimeoutFired 0)) 1) = [(11, ''client-c'', 2)]"
    "session (step anyUrl orphanTimer (TimeoutFired 0)) 11 = Some (''client-c'', 1)"
    "downstream (step anyUrl orphanTimer (TimeoutFired 0)) 11 = OPEN"
    unfolding fire by (simp_all add: callback_proj callback_frame b [unfolded One_nat_def])
  show ?thesis
    using h b(1-4) a by blast
qed

lemma cleanup_timers:
  "intervals (cleanup r s)
     = (case heartbeatInterval (roomHeap s r) of None \<Rightarrow> intervals s
        | Some t \<Rightarrow> (intervals s)(t := None))"
  "downstream (cleanup r s) = downstream s"
  by (simp_all add: cleanup_def cancelCleanup_def stopHeartbeat_def closeLink_def emit_def
      updRoom_def Let_def split: option.split)

lemma callback_intervals:
  "intervals (cleanupTimerCallback r s)
     = (case heartbeatInterval (roomHeap s r) of None \<Rightarrow> intervals s
        | Some t \<Rightarrow> (intervals s)(t := None))"
proof -
  have d: "intervals (disconnectFromYahoo r s) = intervals s"
    by (simp add: disconnectFromYahoo_def closeLink_def emit_def updRoom_def Let_def
        split: option.split)
  show ?thesis
    by (simp add: cleanupTimerCallback_def Let_def cleanup_timers disconnect_proj d
        split: option.split)
qed

lemma timer_expiry_timers:
  assumes "mapDelete ws (clients (roomHeap s r)) = []" and "2000 \<le> d"
  shows "intervals (step ctor (step ctor (removeClient r ws s) (Advance d)) (TimeoutFired (nextTimer s)))
           = (case heartbeatInterval (roomHeap s r) of None \<Rightarrow> intervals s
              | Some t \<Rightarrow> (intervals s)(t := None))"
    and "timeouts (step ctor (step ctor (removeClient r ws s) (Advance d)) (TimeoutFired (nextTimer s)))
           = (case cleanupTimeout (roomHeap s r) of None \<Rightarrow> timeouts s
              | Some t0 \<Rightarrow> (timeouts s)(t0 := None))(nextTimer s := None)"
proof -
  let ?s2 = "step ctor (removeClient r ws s) (Advance d)"
  let ?s3 = "?s2\<lparr>timeouts := (timeouts ?s2)(nextTimer s := None)\<rparr>"
  have fire: "step ctor ?s2 (TimeoutFired (nextTimer s)) = cleanupTimerCallback r ?s3"
    using assms(2) by (simp add: removeClient_emptying [OF assms(1)] timeoutFired_def)
  have s3: "?s3 = s\<lparr>roomHeap := (roomHeap s)(r := (roomHeap s r)\<lparr>clients := [],
                    cleanupTimeout := Some (nextTimer s)\<rparr>),
                timeouts := (case cleanupTimeout (roomHeap s r) of
                               None \<Rightarrow> timeouts s
                             | Some t0 \<Rightarrow> (timeouts s)(t0 := None))(nextTimer s := None),
                nextTimer := Suc (nextTimer s), clock := clock s + d\<rparr>"
    by (simp add: removeClient_emptying [OF assms(1)])
  show "intervals (step ctor ?s2 (TimeoutFired (nextTimer s)))
           = (case heartbeatInterval (roomHeap s r) of None \<Rightarrow> intervals s
              | Some t \<Rightarrow> (intervals s)(t := None))"
    unfolding fire s3 by (simp add: callback_intervals split: option.split)
  show "timeouts (step ctor ?s2 (TimeoutFired (nextTimer s)))
           = (case cleanupTimeout (roomHeap s r) of None \<Rightarrow> timeouts s
              | Some t0 \<Rightarrow> (timeouts s)(t0 := None))(nextTimer s := None)"
    unfolding fire s3 by (simp add: callback_proj(7) split: option.split)
qed

lemma timers_after_expiry:
  assumes "mapDelete ws (clients (roomHeap s r)) = []" and "2000 \<le> d"
    and "intervalsOf r s \<subseteq> set_option (heartbeatInterval (roomHeap s r))"
    and "timeoutsOf r s \<subseteq> set_option (cleanupTimeout (roomHeap s r))"
  shows "intervalsOf r (step ctor (step ctor (removeClient r ws s) (Advance d))
            (TimeoutFired (nextTimer s))) = {}"
    and "timeoutsOf r (step ctor (step ctor (removeClient r ws s) (Advance d))
            (TimeoutFired (nextTimer s))) = {}"
  unfolding intervalsOf_def timeoutsOf_def timer_expiry_timers [OF assms(1,2)]
  using assms(3,4)
  by (auto simp: intervalsOf_def timeoutsOf_def split: option.splits if_splits)

lemma timer_restart:
  assumes "mapDelete ws (clients (roomHeap s r)) = []"
    and "timeoutsOf r s \<subseteq> set_option (cleanupTimeout (roomHeap s r))"
  shows "timeoutsOf r (removeClient r ws s) = {nextTimer s}"
  using assms(2)
  by (auto simp: timeoutsOf_def removeClient_emptying [OF assms(1)]
      split: option.splits if_splits)

lemma addClient_timers:
  "timeouts (addClient ctor r ws cid dp s)
     = (case cleanupTimeout (roomHeap s r) of None \<Rightarrow> timeouts s
        | Some t \<Rightarrow> (timeouts s)(t := None))"
  "intervals (addClient ctor r ws cid dp s) = intervals s"
  "downstream (addClient ctor r ws cid dp s) = downstream s"
  "yahooWebSocketUrl (roomHeap (addClient ctor r ws cid dp s) r) = yahooWebSocketUrl (roomHeap s r)"
  "roomId (roomHeap (addClient ctor r ws cid dp s) r) = roomId (roomHeap s r)"
proof -
  have f: "timeouts (forceReinit r p) = timeouts p" "intervals (forceReinit r p) = intervals p"
    "downstream (forceReinit r p) = downstream p"
    "yahooWebSocketUrl (roomHeap (forceReinit r p) r) = yahooWebSocketUrl (roomHeap p r)"
    "roomId (roomHeap (forceReinit r p) r) = roomId (roomHeap p r)" for p
    by (simp_all add: forceReinit_def resetConnectionState_def dropLink_def closeLink_def
        emit_def updRoom_def split: option.split)
  have c: "timeouts (fst (connectToYahoo ctor r p)) = timeouts p"
    "intervals (fst (connectToYahoo ctor r p)) = intervals p"
    "downstream (fst (connectToYahoo ctor r p)) = downstream p"
    "yahooWebSocketUrl (roomHeap (fst (connectToYahoo ctor r p)) r)
       = yahooWebSocketUrl (roomHeap p r)"
    "roomId (roomHeap (fst (connectToYahoo ctor r p)) r) = roomId (roomHeap p r)" for p
    by (simp_all add: connectToYahoo_def emit_def updRoom_def Let_def)
  have k: "intervals (cancelCleanup r s) = intervals s"
    by (simp add: cancelCleanup_def updRoom_def split: option.split)
  show "timeouts (addClient ctor r ws cid dp s)
     = (case cleanupTimeout (roomHeap s r) of None \<Rightarrow> timeouts s
        | Some t \<Rightarrow> (timeouts s)(t := None))"
    and "intervals (addClient ctor r ws cid dp s) = intervals s"
    and "downstream (addClient ctor r ws cid dp s) = downstream s"
    and "yahooWebSocketUrl (roomHeap (addClient ctor r ws cid dp s) r)
           = yahooWebSocketUrl (roomHeap s r)"
    and "roomId (roomHeap (addClient ctor r ws cid dp s) r) = roomId (roomHeap s r)"
    by (simp_all add: addClient_def Let_def emit_def c)
       (simp_all add: beforeConnect_def updRoom_def f k cancelCleanup_more)
qed

lemma addClient_no_timer:
  assumes "mapDelete ws (clients (roomHeap s r)) = []"
    and "timeoutsOf r s \<subseteq> set_option (cleanupTimeout (roomHeap s r))"
  shows "timeoutsOf r (addClient ctor r ws' cid dp (removeClient r ws s)) = {}"
  unfolding timeoutsOf_def addClient_timers
  using assms(2)
  by (auto simp: timeoutsOf_def removeClient_emptying [OF assms(1)]
      split: option.splits if_splits)

text \<open>
  C4, as amended. The Room \<open>r\<close> is the one registered under its id, and the timers
  of the runtime that call back into it are those whose handles it holds. A
  \<open>removeClient\<close> that empties the client set starts the retirement timer of the Room,
  due 2000 ms later, after cancelling the one it had, so that this is its only pending
  timeout; nothing is closed and the Registry is unchanged. The timer cannot fire
  before the 2000 ms have passed. When it fires, the Room closes its link with code
  1000, no interval and no timeout of the Room is left running, and the Room is
  removed from the Registry. An \<open>addClient\<close> on the Room before that cancels the timer,
  so that no timeout of the Room is pending, and leaves the Registry as it is (the
  connection handler finds and reuses the Room when the URL is the same); the only
  close it may issue is the forced re-initialisation of an open link, with reason
  \<open>New client joined - forcing reconnection\<close>. Retirement is not tied to the timer
  alone: see the counterexample below.
\<close>

theorem retirement_timer:
  assumes "mapDelete ws (clients (roomHeap s r)) = []"
    and "rooms s (roomId (roomHeap s r)) = Some r"
    and "intervalsOf r s \<subseteq> set_option (heartbeatInterval (roomHeap s r))"
    and "timeoutsOf r s \<subseteq> set_option (cleanupTimeout (roomHeap s r))"
  shows "cleanupTimeout (roomHeap (removeClient r ws s) r) = Some (nextTimer s)
    \<and> timeouts (removeClient r ws s) (nextTimer s) = Some (clock s + 2000, r)
    \<and> timeoutsOf r (removeClient r ws s) = {nextTimer s}
    \<and> trace (removeClient r ws s) = trace s
    \<and> rooms (removeClient r ws s) = rooms s
    \<and> (\<forall>d<2000.
          step ctor (step ctor (removeClient r ws s) (Advance d)) (TimeoutFired (nextTimer s))
            = step ctor (removeClient r ws s) (Advance d))
    \<and> (\<forall>d\<ge>2000.
          rooms (step ctor (step ctor (removeClient r ws s) (Advance d))
                   (TimeoutFired (nextTimer s)))
            = (rooms s)(roomId (roomHeap s r) := None)
          \<and> trace (step ctor (step ctor (removeClient r ws s) (Advance d))
                     (TimeoutFired (nextTimer s)))
              = trace s @ (case yahooWs (roomHeap s r) of
                             None \<Rightarrow> []
                           | Some l \<Rightarrow> [UpClose l 1000 ''No clients remaining in room'',
                                        UpClose l 1000 ''Room cleanup''])
          \<and> yahooWs (roomHeap (step ctor (step ctor (removeClient r ws s) (Advance d))
                                  (TimeoutFired (nextTimer s))) r) = None
          \<and> cleanupTimeout (roomHeap (step ctor (step ctor (removeClient r ws s) (Advance d))
                                         (TimeoutFired (nextTimer s))) r) = None
          \<and> heartbeatInterval (roomHeap (step ctor (step ctor (removeClient r ws s) (Advance d))
                                            (TimeoutFired (nextTimer s))) r) = None
          \<and> intervalsOf r (step ctor (step ctor (removeClient r ws s) (Advance d))
                             (TimeoutFired (nextTimer s))) = {}
          \<and> timeoutsOf r (step ctor (step ctor (removeClient r ws s) (Advance d))
                            (TimeoutFired (nextTimer s))) = {})
    \<and> cleanupTimeout (roomHeap (addClient ctor r ws' cid dp (removeClient r ws s)) r) = None
    \<and> timeoutsOf r (addClient ctor r ws' cid dp (removeClient r ws s)) = {}
    \<and> rooms (addClient ctor r ws' cid dp (removeClient r ws s)) = rooms s
    \<and> nextRoom (addClient ctor r ws' cid dp (removeClient r ws s)) = nextRoom s
    \<and> trace (addClient ctor r ws' cid dp (removeClient r ws s))
        = trace s
          @ (case yahooWs (roomHeap s r) of
               None \<Rightarrow> []
             | Some l \<Rightarrow> if upstream s l = OPEN
                         then [UpClose l 1000 ''New client joined - forcing reconnection'']
                         else [])
          @ (if \<not> isConnectingToYahoo (roomHeap s r) \<and> ctor (yahooWebSocketUrl (roomHeap s r))
             then [Dial (nextLink s) (yahooWebSocketUrl (roomHeap s r))] else [])
          @ [DownSend ws' (room_joined (roomId (roomHeap s r)) False 1 dp)]
    \<and> getOrCreateRoom (roomId (roomHeap s r)) dp' (yahooWebSocketUrl (roomHeap s r)) uid
          (removeClient r ws s)
        = (r, removeClient r ws s)"
proof -
  note t = timer_set [OF assms(1)]
  have restart: "timeoutsOf r (removeClient r ws s) = {nextTimer s}"
    by (rule timer_restart [OF assms(1,4)])
  have early: "\<forall>d<2000.
          step ctor (step ctor (removeClient r ws s) (Advance d)) (TimeoutFired (nextTimer s))
            = step ctor (removeClient r ws s) (Advance d)"
    using timer_not_early [OF assms(1)] by blast
  have expiry: "\<forall>d\<ge>2000.
          rooms (step ctor (step ctor (removeClient r ws s) (Advance d))
                   (TimeoutFired (nextTimer s)))
            = (rooms s)(roomId (roomHeap s r) := None)
          \<and> trace (step ctor (step ctor (removeClient r ws s) (Advance d))
                     (TimeoutFired (nextTimer s)))
              = trace s @ (case yahooWs (roomHeap s r) of
                             None \<Rightarrow> []
                           | Some l \<Rightarrow> [UpClose l 1000 ''No clients remaining in room'',
                                        UpClose l 1000 ''Room cleanup''])
          \<and> yahooWs (roomHeap (step ctor (step ctor (removeClient r ws s) (Advance d))
                                  (TimeoutFired (nextTimer s))) r) = None
          \<and> cleanupTimeout (roomHeap (step ctor (step ctor (removeClient r ws s) (Advance d))
                                         (TimeoutFired (nextTimer s))) r) = None
          \<and> heartbeatInterval (roomHeap (step ctor (step ctor (removeClient r ws s) (Advance d))
                                            (TimeoutFired (nextTimer s))) r) = None
          \<and> intervalsOf r (step ctor (step ctor (removeClient r ws s) (Advance d))
                             (TimeoutFired (nextTimer s))) = {}
          \<and> timeoutsOf r (step ctor (step ctor (removeClient r ws s) (Advance d))
                            (TimeoutFired (nextTimer s))) = {}"
    using timer_expiry(1-5) [OF assms(1)] timers_after_expiry [OF assms(1) _ assms(3,4)]
    by blast
  note c = addClient_cancels_timer [OF assms(1), of ctor ws' cid dp, unfolded newClientReason_def]
  have none: "timeoutsOf r (addClient ctor r ws' cid dp (removeClient r ws s)) = {}"
    by (rule addClient_no_timer [OF assms(1,4)])
  have reuse: "getOrCreateRoom (roomId (roomHeap s r)) dp' (yahooWebSocketUrl (roomHeap s r)) uid
          (removeClient r ws s)
        = (r, removeClient r ws s)"
    using assms(2)
    by (simp add: getOrCreateRoom_reuses [of "removeClient r ws s" _ r
          "yahooWebSocketUrl (roomHeap s r)"] t)
  show ?thesis
    using t(1,2,4,5) restart early expiry c none reuse by blast
qed

text \<open>
  Witness for C4: the only client of \<open>connected\<close> leaves. The Room is registered and
  its heartbeat is the only timer that calls back into it. The retirement timer is
  due at 2000 ms, does not fire at 1999 ms, retires the Room at 2000 ms, the heartbeat
  being cleared, and a client that joins before leaves the Registry as it is.
\<close>

theorem retirement_timer_witness:
  "mapDelete 10 (clients (roomHeap connected 0)) = []
   \<and> rooms connected (roomId (roomHeap connected 0)) = Some 0
   \<and> intervalsOf 0 connected = {0}
   \<and> intervalsOf 0 connected \<subseteq> set_option (heartbeatInterval (roomHeap connected 0))
   \<and> timeoutsOf 0 connected \<subseteq> set_option (cleanupTimeout (roomHeap connected 0))
   \<and> timeouts (removeClient 0 10 connected) (nextTimer connected) = Some (clock connected + 2000, 0)
   \<and> step anyUrl (step anyUrl (removeClient 0 10 connected) (Advance 1999))
         (TimeoutFired (nextTimer connected))
       = step anyUrl (removeClient 0 10 connected) (Advance 1999)
   \<and> rooms (step anyUrl (step anyUrl (removeClient 0 10 connected) (Advance 2000))
         (TimeoutFired (nextTimer connected)))
       = (rooms connected)(roomId (roomHeap connected 0) := None)
   \<and> intervalsOf 0 (step anyUrl (step anyUrl (removeClient 0 10 connected) (Advance 2000))
         (TimeoutFired (nextTimer connected))) = {}
   \<and> timeoutsOf 0 (step anyUrl (step anyUrl (removeClient 0 10 connected) (Advance 2000))
         (TimeoutFired (nextTimer connected))) = {}
   \<and> rooms (addClient anyUrl 0 11 ''client-b'' 3 (removeClient 0 10 connected)) = rooms connected"
proof -
  have h: "mapDelete 10 (clients (roomHeap connected 0)) = []"
    "rooms connected (roomId (roomHeap connected 0)) = Some 0"
    "intervalsOf 0 connected \<subseteq> set_option (heartbeatInterval (roomHeap connected 0))"
    "timeoutsOf 0 connected \<subseteq> set_option (cleanupTimeout (roomHeap connected 0))"
    by (auto simp: connected_state newRoom_def mapDelete_def intervalsOf_def timeoutsOf_def
        split: if_splits)
  have i: "intervalsOf 0 connected = {0}"
    by (auto simp: connected_state intervalsOf_def split: if_splits)
  note w = retirement_timer [OF h, of anyUrl 11 "''client-b''" 3]
  have a: "timeouts (removeClient 0 10 connected) (nextTimer connected)
             = Some (clock connected + 2000, 0)"
    using w by blast
  have b: "step anyUrl (step anyUrl (removeClient 0 10 connected) (Advance 1999))
         (TimeoutFired (nextTimer connected))
       = step anyUrl (removeClient 0 10 connected) (Advance 1999)"
  proof -
    have "\<forall>d<2000. step anyUrl (step anyUrl (removeClient 0 10 connected) (Advance d))
              (TimeoutFired (nextTimer connected))
            = step anyUrl (removeClient 0 10 connected) (Advance d)"
      using w by blast
    moreover have "(1999::nat) < 2000" by simp
    ultimately show ?thesis by blast
  qed
  have c: "rooms (step anyUrl (step anyUrl (removeClient 0 10 connected) (Advance 2000))
         (TimeoutFired (nextTimer connected)))
       = (rooms connected)(roomId (roomHeap connected 0) := None)
     \<and> intervalsOf 0 (step anyUrl (step anyUrl (removeClient 0 10 connected) (Advance 2000))
         (TimeoutFired (nextTimer connected))) = {}
     \<and> timeoutsOf 0 (step anyUrl (step anyUrl (removeClient 0 10 connected) (Advance 2000))
         (TimeoutFired (nextTimer connected))) = {}"
  proof -
    have "\<forall>d\<ge>2000. rooms (step anyUrl (step anyUrl (removeClient 0 10 connected) (Advance d))
              (TimeoutFired (nextTimer connected)))
            = (rooms connected)(roomId (roomHeap connected 0) := None)
          \<and> intervalsOf 0 (step anyUrl (step anyUrl (removeClient 0 10 connected) (Advance d))
              (TimeoutFired (nextTimer connected))) = {}
          \<and> timeoutsOf 0 (step anyUrl (step anyUrl (removeClient 0 10 connected) (Advance d))
              (TimeoutFired (nextTimer connected))) = {}"
      using w by blast
    moreover have "(2000::nat) \<le> 2000" by simp
    ultimately show ?thesis by blast
  qed
  have d: "rooms (addClient anyUrl 0 11 ''client-b'' 3 (removeClient 0 10 connected))
             = rooms connected"
    using w by blast
  show ?thesis
    using h i a b c d by blast
qed

text \<open>
  Where the hypothesis on the timers fails. After a second client has joined, the new
  link opens before the old one has reported its close, so \<open>startHeartbeat\<close>
  overwrites the handle of the running heartbeat; both clients leave and the
  retirement timer fires. The Room is removed from the Registry and holds no handle,
  and its first heartbeat is still running.
\<close>

lemma heartbeat_outlives_room:
  "rooms leakedHeartbeat ''12345'' = None
   \<and> heartbeatInterval (roomHeap leakedHeartbeat 0) = None
   \<and> intervals leakedHeartbeat 0 = Some 0"
proof -
  have o: "run anyUrl secondJoined [UpstreamOpen 1] =
    \<lparr>rooms = [''12345'' \<mapsto> 0],
      clientConnections = [''client-a'' \<mapsto> (10, 0), ''client-b'' \<mapsto> (11, 0)],
      roomHeap = (\<lambda>_. newRoom [] 0 [] [] 5 10000 0)
         (0 := (newRoom ''12345'' 1 ''wss://u'' ''user-a'' 5 10000 0)
                 \<lparr>yahooWs := Some 1, clients := [(10, ''client-a'', 1), (11, ''client-b'', 3)],
                  heartbeatInterval := Some 1, hasJoined := True\<rparr>),
      upstream = (\<lambda>_. CLOSED)(0 := CLOSING, 1 := OPEN), owner = (\<lambda>_. 0)(0 := 0, 1 := 0),
      downstream = (\<lambda>_. CLOSED)(10 := OPEN, 11 := OPEN),
      session = [10 \<mapsto> (''client-a'', 0), 11 \<mapsto> (''client-b'', 0)], timeouts = Map.empty,
      intervals = [0 \<mapsto> 0, 1 \<mapsto> 0], nextRoom = 1, nextLink = 2, nextTimer = 2, clock = 0,
      config = \<lparr>cfg_maxReconnectAttempts = Some 5, cfg_connectionTimeout = Some 10000\<rparr>,
      trace = [Dial 0 ''wss://u'', DownSend 10 (room_joined ''12345'' False 1 1),
               UpSend 0 ''8|12345|1|YahooFantasyProxy%2F1.0%20(user-a)|'',
               DownSend 10 (yahoo_connected ''Connected to Yahoo WebSocket''),
               UpClose 0 1000 ''New client joined - forcing reconnection'',
               Dial 1 ''wss://u'', DownSend 11 (room_joined ''12345'' False 2 3),
               UpSend 1 ''8|12345|1|YahooFantasyProxy%2F1.0%20(user-a)|'',
               DownSend 10 (yahoo_connected ''Connected to Yahoo WebSocket''),
               DownSend 11 (yahoo_connected ''Connected to Yahoo WebSocket'')]\<rparr>"
    by (simp add: secondJoined_state run_def upstreamOpen_def room_defs string_defs Let_def)
  let ?e = "run anyUrl (run anyUrl secondJoined [UpstreamOpen 1])
              [ClientClosed 10, ClientClosed 11, Advance 2000]"
  have e: "?e =
    \<lparr>rooms = [''12345'' \<mapsto> 0], clientConnections = Map.empty,
      roomHeap = (\<lambda>_. newRoom [] 0 [] [] 5 10000 0)
         (0 := (newRoom ''12345'' 1 ''wss://u'' ''user-a'' 5 10000 0)
                 \<lparr>yahooWs := Some 1, heartbeatInterval := Some 1, hasJoined := True,
                  cleanupTimeout := Some 2\<rparr>),
      upstream = (\<lambda>_. CLOSED)(0 := CLOSING, 1 := OPEN), owner = (\<lambda>_. 0)(0 := 0, 1 := 0),
      downstream = (\<lambda>_. CLOSED)(10 := CLOSED, 11 := CLOSED),
      session = [10 \<mapsto> (''client-a'', 0), 11 \<mapsto> (''client-b'', 0)],
      timeouts = [2 \<mapsto> (2000, 0)],
      intervals = [0 \<mapsto> 0, 1 \<mapsto> 0], nextRoom = 1, nextLink = 2, nextTimer = 3, clock = 2000,
      config = \<lparr>cfg_maxReconnectAttempts = Some 5, cfg_connectionTimeout = Some 10000\<rparr>,
      trace = [Dial 0 ''wss://u'', DownSend 10 (room_joined ''12345'' False 1 1),
               UpSend 0 ''8|12345|1|YahooFantasyProxy%2F1.0%20(user-a)|'',
               DownSend 10 (yahoo_connected ''Connected to Yahoo WebSocket''),
               UpClose 0 1000 ''New client joined - forcing reconnection'',
               Dial 1 ''wss://u'', DownSend 11 (room_joined ''12345'' False 2 3),
               UpSend 1 ''8|12345|1|YahooFantasyProxy%2F1.0%20(user-a)|'',
               DownSend 10 (yahoo_connected ''Connected to Yahoo WebSocket''),
               DownSend 11 (yahoo_connected ''Connected to Yahoo WebSocket'')]\<rparr>"
    unfolding o
    by (simp add: run_def onClientClose_def removeClient_def mapDelete_def updRoom_def
        newRoom_def Let_def)
  have l: "leakedHeartbeat = step anyUrl ?e (TimeoutFired 2)"
    unfolding leakedHeartbeat_def run_def foldl_Cons foldl_Nil by (rule refl)
  have f: "step anyUrl ?e (TimeoutFired 2)
             = cleanupTimerCallback 0 (?e\<lparr>timeouts := (timeouts ?e)(2 := None)\<rparr>)"
    unfolding e by (simp add: timeoutFired_def)
  show ?thesis
    unfolding l f
    unfolding e
    by (simp add: callback_proj callback_intervals newRoom_def)
qed

lemma force_cleanup_connected:
  "rooms (step anyUrl connected (HttpDelete ''12345'')) ''12345'' = None"
  "trace (step anyUrl connected (HttpDelete ''12345''))
     = trace connected @ [DownClose 10 1001 ''Room force cleanup'', UpClose 0 1000 ''Room cleanup'']"
  "cleanupTimeout (roomHeap (step anyUrl connected (HttpDelete ''12345'')) 0) = None"
  "heartbeatInterval (roomHeap (step anyUrl connected (HttpDelete ''12345'')) 0) = None"
  "yahooWs (roomHeap (step anyUrl connected (HttpDelete ''12345'')) 0) = None"
  "clock (step anyUrl connected (HttpDelete ''12345'')) = clock connected"
  by (simp_all add: connected_state deleteRoom_def closeIfOpen_def closeClient_def cleanup_def
      cancelCleanup_def stopHeartbeat_def closeLink_def afterClose_def emit_def updRoom_def
      newRoom_def Let_def)

text \<open>
  Counterexample to C4 as stated: the Room of \<open>connected\<close> has a client, so its client
  set has not been empty for any time, and no time passes; \<open>DELETE /rooms/12345\<close>
  retires it at once: the Registry entry is removed, the upstream link is closed with
  code 1000, and the timer handles are cleared.
\<close>

theorem force_cleanup_retires_occupied_room:
  "clients (roomHeap connected 0) = [(10, ''client-a'', 1)]
   \<and> rooms connected ''12345'' = Some 0
   \<and> rooms (step anyUrl connected (HttpDelete ''12345'')) ''12345'' = None
   \<and> trace (step anyUrl connected (HttpDelete ''12345''))
       = trace connected @ [DownClose 10 1001 ''Room force cleanup'', UpClose 0 1000 ''Room cleanup'']
   \<and> cleanupTimeout (roomHeap (step anyUrl connected (HttpDelete ''12345'')) 0) = None
   \<and> heartbeatInterval (roomHeap (step anyUrl connected (HttpDelete ''12345'')) 0) = None
   \<and> clock (step anyUrl connected (HttpDelete ''12345'')) = clock connected"
  using connected_facts(5,7) force_cleanup_connected(1,2,3,4,6) by blast

section \<open>The handshake\<close>

lemma map_of_mapSet: "map_of (mapSet k v kvs) k = Some v"
  by (induction kvs) auto

lemma forceReinit_keeps:
  "clients (roomHeap (forceReinit r s) r) = clients (roomHeap s r)"
  "roomId (roomHeap (forceReinit r s) r) = roomId (roomHeap s r)"
  "rooms (forceReinit r s) = rooms s"
  by (simp_all add: forceReinit_def resetConnectionState_def dropLink_def closeLink_def
      emit_def updRoom_def split: option.split)

lemma connect_keeps:
  "clients (roomHeap (fst (connectToYahoo ctor r s)) r) = clients (roomHeap s r)"
  "roomId (roomHeap (fst (connectToYahoo ctor r s)) r) = roomId (roomHeap s r)"
  "rooms (fst (connectToYahoo ctor r s)) = rooms s"
  by (simp_all add: connectToYahoo_def emit_def updRoom_def Let_def)

lemma addClient_keeps:
  "clients (roomHeap (addClient ctor r ws cid dp s) r) = mapSet ws (cid, dp) (clients (roomHeap s r))"
  "rooms (addClient ctor r ws cid dp s) = rooms s"
  "trace (addClient ctor r ws cid dp s) \<noteq> []"
  "last (trace (addClient ctor r ws cid dp s))
     = DownSend ws (room_joined (roomId (roomHeap s r)) False
         (length (mapSet ws (cid, dp) (clients (roomHeap s r)))) dp)"
  by (simp_all add: addClient_def Let_def emit_def connect_keeps)
     (simp_all add: beforeConnect_def updRoom_def forceReinit_keeps)

lemma getOrCreateRoom_registers:
  "rooms (snd (getOrCreateRoom lid dp url uid s)) lid = Some (fst (getOrCreateRoom lid dp url uid s))"
  by (simp add: getOrCreateRoom_def createRoom_def Let_def split: option.split)

lemma onConnection_accepts:
  assumes "\<not> (falsyStr (q_leagueId q) \<or> falsyNum (parseInt (strOr (q_draftPosition q) ''0''))
              \<or> falsyStr (q_websocketUrl q))"
  shows "\<exists>lid dp r s1.
           q_leagueId q = Some lid \<and> parseInt (strOr (q_draftPosition q) ''0'') = Some dp
           \<and> (r, s1) = getOrCreateRoom lid dp (strOr (q_websocketUrl q) [])
                          (strOr (q_platformUserId q) ''unknown'') s
           \<and> onConnection ctor ws cid q s
               = (addClient ctor r ws cid dp s1)
                   \<lparr>clientConnections :=
                      (clientConnections (addClient ctor r ws cid dp s1))(cid \<mapsto> (ws, r)),
                    session := (session (addClient ctor r ws cid dp s1))(ws \<mapsto> (cid, r))\<rparr>"
proof -
  obtain lid where lid: "q_leagueId q = Some lid" "lid \<noteq> []"
    using assms by (auto simp: falsyStr_def split: option.splits)
  obtain dp where dp: "parseInt (strOr (q_draftPosition q) ''0'') = Some dp" "dp \<noteq> 0"
    using assms by (auto simp: falsyNum_def split: option.splits)
  obtain r s1 where g: "getOrCreateRoom lid dp (strOr (q_websocketUrl q) [])
                          (strOr (q_platformUserId q) ''unknown'') s = (r, s1)"
    by (cases "getOrCreateRoom lid dp (strOr (q_websocketUrl q) [])
                          (strOr (q_platformUserId q) ''unknown'') s") auto
  have "onConnection ctor ws cid q s
               = (addClient ctor r ws cid dp s1)
                   \<lparr>clientConnections :=
                      (clientConnections (addClient ctor r ws cid dp s1))(cid \<mapsto> (ws, r)),
                    session := (session (addClient ctor r ws cid dp s1))(ws \<mapsto> (cid, r))\<rparr>"
    using assms lid dp g by (simp add: onConnection_def Let_def strOr_def numOr_def)
  then show ?thesis
    using lid dp g by auto
qed

lemma addClient_trace:
  "trace (addClient ctor r ws cid dp s)
     = trace s
       @ (if 0 < length (clients (roomHeap s r)) \<or> linkOpen r s
          then (case yahooWs (roomHeap s r) of None \<Rightarrow> []
                | Some l \<Rightarrow> [UpClose l 1000 newClientReason])
          else [])
       @ (if \<not> isConnectingToYahoo (roomHeap s r) \<and> ctor (yahooWebSocketUrl (roomHeap s r))
          then [Dial (nextLink s) (yahooWebSocketUrl (roomHeap s r))] else [])
       @ [DownSend ws (room_joined (roomId (roomHeap s r)) False
            (length (mapSet ws (cid, dp) (clients (roomHeap s r)))) dp)]"
proof (cases "0 < length (clients (roomHeap s r)) \<or> linkOpen r s")
  case True
  show ?thesis
    using True by (simp add: addClient_forced_trace [OF True])
next
  case False
  let ?c = "cancelCleanup r s"
  have f: "forceReinit r ?c = ?c"
    using False by (simp add: forceReinit_def)
  have lo: "\<not> linkOpen r (updRoom r (\<lambda>rm. rm\<lparr>clients := mapSet ws (cid, dp) (clients rm)\<rparr>) ?c)"
    using False by (simp add: linkOpen_def updRoom_def split: option.splits)
  show ?thesis
    unfolding addClient_def beforeConnect_def f
    using False lo
    by (simp add: connectToYahoo_def emit_def Let_def) (simp add: updRoom_def)
qed

lemma getOrCreateRoom_effects:
  "trace (snd (getOrCreateRoom lid dp url uid s))
     = trace s
       @ (case rooms s lid of
            None \<Rightarrow> []
          | Some r0 \<Rightarrow>
              if yahooWebSocketUrl (roomHeap s r0) \<noteq> url
              then (case yahooWs (roomHeap s r0) of None \<Rightarrow> []
                    | Some l \<Rightarrow> [UpClose l 1000 ''Room cleanup''])
              else [])"
  "downstream (snd (getOrCreateRoom lid dp url uid s)) = downstream s"
  "yahooWebSocketUrl (roomHeap (snd (getOrCreateRoom lid dp url uid s))
      (fst (getOrCreateRoom lid dp url uid s))) = url"
  by (simp_all add: getOrCreateRoom_def createRoom_def newRoom_def Let_def cleanup_proj
      cleanup_timers split: option.split)

lemma onConnection_effects:
  assumes "(r, s1) = getOrCreateRoom lid dp url uid s"
  shows "\<exists>es. trace (addClient ctor r ws cid dp s1)
                = trace s @ es
                  @ [DownSend ws (room_joined (roomId (roomHeap s1 r)) False
                       (length (mapSet ws (cid, dp) (clients (roomHeap s1 r)))) dp)]
              \<and> filter isDownClose es = []"
proof -
  let ?g = "case rooms s lid of
            None \<Rightarrow> []
          | Some r0 \<Rightarrow>
              if yahooWebSocketUrl (roomHeap s r0) \<noteq> url
              then (case yahooWs (roomHeap s r0) of None \<Rightarrow> []
                    | Some l \<Rightarrow> [UpClose l 1000 ''Room cleanup''])
              else []"
  let ?a = "(if 0 < length (clients (roomHeap s1 r)) \<or> linkOpen r s1
          then (case yahooWs (roomHeap s1 r) of None \<Rightarrow> []
                | Some l \<Rightarrow> [UpClose l 1000 newClientReason])
          else [])
       @ (if \<not> isConnectingToYahoo (roomHeap s1 r) \<and> ctor (yahooWebSocketUrl (roomHeap s1 r))
          then [Dial (nextLink s1) (yahooWebSocketUrl (roomHeap s1 r))] else [])"
  have s1: "s1 = snd (getOrCreateRoom lid dp url uid s)"
    using assms [symmetric] by simp
  have t1: "trace s1 = trace s @ ?g"
    unfolding s1 by (rule getOrCreateRoom_effects(1))
  have t: "trace (addClient ctor r ws cid dp s1)
                = trace s @ (?g @ ?a)
                  @ [DownSend ws (room_joined (roomId (roomHeap s1 r)) False
                       (length (mapSet ws (cid, dp) (clients (roomHeap s1 r)))) dp)]"
    by (simp add: addClient_trace t1)
  have "list_all (\<lambda>e. \<not> isDownClose e) (?g @ ?a)"
    by (cases "rooms s lid") (simp_all add: newClientReason_def split: option.split)
  then have n: "filter isDownClose (?g @ ?a) = []"
    unfolding filter_empty_conv list_all_iff .
  show ?thesis
    using t n by blast
qed

text \<open>
  C6, as amended. The parsed draft position is NaN or a safe integer. The acceptor
  closes the socket with code 1008 and reason
  \<open>Missing required parameters: leagueId, draftPosition, websocketUrl\<close>, and does
  nothing else, exactly when \<open>leagueId\<close> is missing or empty, \<open>websocketUrl\<close> is
  missing or empty, or \<open>parseInt\<close> of \<open>draftPosition\<close> (of \<open>0\<close> when it is missing or
  empty) is NaN or 0. Otherwise the handler closes no downstream socket and changes
  the state of none; the socket is attached, with the parsed position, to the Room
  registered for the league, which has the URL of the handshake, and the last thing
  the handler sends is \<open>room_joined\<close> with that position to the socket. A missing
  position and the position \<open>0\<close> are rejected; a negative position such as \<open>-1\<close>
  parses to a number other than 0 and is accepted. The handler drops the promise of
  \<open>connectToYahoo\<close>; what the runtime does with its rejection, when the WebSocket
  constructor refuses the URL, comes after the handler and is not part of the
  statement.
\<close>

theorem handshake_rejected_iff_falsy:
  assumes "safeNumber (parseInt (strOr (q_draftPosition q) ''0''))"
  shows "(if falsyStr (q_leagueId q) \<or> falsyNum (parseInt (strOr (q_draftPosition q) ''0''))
        \<or> falsyStr (q_websocketUrl q)
    then onConnection ctor ws cid q s
           = closeClient ws 1008
               ''Missing required parameters: leagueId, draftPosition, websocketUrl'' s
         \<and> trace (onConnection ctor ws cid q s)
             = trace s @ [DownClose ws 1008
                 ''Missing required parameters: leagueId, draftPosition, websocketUrl'']
         \<and> rooms (onConnection ctor ws cid q s) = rooms s
         \<and> session (onConnection ctor ws cid q s) = session s
         \<and> roomHeap (onConnection ctor ws cid q s) = roomHeap s
    else onConnection ctor ws cid q s
           \<noteq> closeClient ws 1008
               ''Missing required parameters: leagueId, draftPosition, websocketUrl'' s
         \<and> downstream (onConnection ctor ws cid q s) = downstream s
         \<and> (\<exists>lid dp url r es. q_leagueId q = Some lid
               \<and> parseInt (strOr (q_draftPosition q) ''0'') = Some dp
               \<and> q_websocketUrl q = Some url
               \<and> trace (onConnection ctor ws cid q s)
                   = trace s @ es
                     @ [DownSend ws (room_joined
                          (roomId (roomHeap (onConnection ctor ws cid q s) r)) False
                          (length (clients (roomHeap (onConnection ctor ws cid q s) r))) dp)]
               \<and> filter isDownClose es = []
               \<and> rooms (onConnection ctor ws cid q s) lid = Some r
               \<and> yahooWebSocketUrl (roomHeap (onConnection ctor ws cid q s) r) = url
               \<and> session (onConnection ctor ws cid q s) ws = Some (cid, r)
               \<and> clientConnections (onConnection ctor ws cid q s) cid = Some (ws, r)
               \<and> map_of (clients (roomHeap (onConnection ctor ws cid q s) r)) ws = Some (cid, dp)))
   \<and> falsyStr x = (x = None \<or> x = Some [])
   \<and> falsyNum n = (n = None \<or> n = Some 0)
   \<and> parseInt (strOr None ''0'') = Some 0
   \<and> parseInt (strOr (Some ''0'') ''0'') = Some 0
   \<and> parseInt (strOr (Some ''-1'') ''0'') = Some (- 1)"
proof -
  let ?c = "falsyStr (q_leagueId q) \<or> falsyNum (parseInt (strOr (q_draftPosition q) ''0''))
        \<or> falsyStr (q_websocketUrl q)"
  let ?reject = "closeClient ws 1008
               ''Missing required parameters: leagueId, draftPosition, websocketUrl'' s"
  let ?s' = "onConnection ctor ws cid q s"
  have rej: "?s' = ?reject
         \<and> trace ?s'
             = trace s @ [DownClose ws 1008
                 ''Missing required parameters: leagueId, draftPosition, websocketUrl'']
         \<and> rooms ?s' = rooms s \<and> session ?s' = session s \<and> roomHeap ?s' = roomHeap s"
    if y: "?c"
  proof -
    have e: "?s' = ?reject"
      using y by (simp add: onConnection_def Let_def missingParameters_def)
    show ?thesis
      unfolding e by (simp add: closeClient_def emit_def)
  qed
  have acc: "?s' \<noteq> ?reject
         \<and> downstream ?s' = downstream s
         \<and> (\<exists>lid dp url r es. q_leagueId q = Some lid
               \<and> parseInt (strOr (q_draftPosition q) ''0'') = Some dp
               \<and> q_websocketUrl q = Some url
               \<and> trace ?s'
                   = trace s @ es
                     @ [DownSend ws (room_joined (roomId (roomHeap ?s' r)) False
                          (length (clients (roomHeap ?s' r))) dp)]
               \<and> filter isDownClose es = []
               \<and> rooms ?s' lid = Some r
               \<and> yahooWebSocketUrl (roomHeap ?s' r) = url
               \<and> session ?s' ws = Some (cid, r)
               \<and> clientConnections ?s' cid = Some (ws, r)
               \<and> map_of (clients (roomHeap ?s' r)) ws = Some (cid, dp))"
    if n: "\<not> ?c"
  proof -
    from onConnection_accepts [OF n, of s ctor ws cid]
    obtain lid dp r s1 where
      a: "q_leagueId q = Some lid" "parseInt (strOr (q_draftPosition q) ''0'') = Some dp"
        "(r, s1) = getOrCreateRoom lid dp (strOr (q_websocketUrl q) [])
                          (strOr (q_platformUserId q) ''unknown'') s"
        "?s' = (addClient ctor r ws cid dp s1)
                   \<lparr>clientConnections :=
                      (clientConnections (addClient ctor r ws cid dp s1))(cid \<mapsto> (ws, r)),
                    session := (session (addClient ctor r ws cid dp s1))(ws \<mapsto> (cid, r))\<rparr>"
      by blast
    obtain url where url: "q_websocketUrl q = Some url" "url \<noteq> []"
      using n by (auto simp: falsyStr_def split: option.splits)
    have su: "strOr (q_websocketUrl q) [] = url"
      by (simp add: strOr_def url)
    have g: "r = fst (getOrCreateRoom lid dp url (strOr (q_platformUserId q) ''unknown'') s)"
      "s1 = snd (getOrCreateRoom lid dp url (strOr (q_platformUserId q) ''unknown'') s)"
      using a(3) [symmetric] unfolding su by simp_all
    have reg: "rooms s1 lid = Some r"
      unfolding g by (rule getOrCreateRoom_registers)
    have u: "yahooWebSocketUrl (roomHeap s1 r) = url"
      unfolding g by (rule getOrCreateRoom_effects(3))
    have dn: "downstream s1 = downstream s"
      unfolding g by (rule getOrCreateRoom_effects(2))
    obtain es where es: "trace (addClient ctor r ws cid dp s1)
                = trace s @ es
                  @ [DownSend ws (room_joined (roomId (roomHeap s1 r)) False
                       (length (mapSet ws (cid, dp) (clients (roomHeap s1 r)))) dp)]"
      "filter isDownClose es = []"
      using onConnection_effects [OF a(3), of ctor ws cid] unfolding su by blast
    have l1: "last (trace ?s')
                = DownSend ws (room_joined (roomId (roomHeap s1 r)) False
                    (length (mapSet ws (cid, dp) (clients (roomHeap s1 r)))) dp)"
      by (simp add: a(4) addClient_keeps)
    have l2: "last (trace ?reject)
                = DownClose ws 1008
                    ''Missing required parameters: leagueId, draftPosition, websocketUrl''"
      by (simp add: closeClient_def emit_def)
    have ne: "?s' \<noteq> ?reject"
    proof
      assume "?s' = ?reject"
      then have "last (trace ?s') = last (trace ?reject)"
        by simp
      then show False
        unfolding l1 l2 by simp
    qed
    have d: "downstream ?s' = downstream s"
      by (simp add: a(4) addClient_timers dn)
    have t: "trace ?s'
                   = trace s @ es
                     @ [DownSend ws (room_joined (roomId (roomHeap ?s' r)) False
                          (length (clients (roomHeap ?s' r))) dp)]"
      by (simp add: a(4) es(1) addClient_timers addClient_keeps)
    have "rooms ?s' lid = Some r" "yahooWebSocketUrl (roomHeap ?s' r) = url"
      "session ?s' ws = Some (cid, r)" "clientConnections ?s' cid = Some (ws, r)"
      "map_of (clients (roomHeap ?s' r)) ws = Some (cid, dp)"
      by (simp_all add: a(4) addClient_keeps addClient_timers reg u map_of_mapSet)
    then show ?thesis
      using ne d a(1,2) url(1) t es(2) by blast
  qed
  have f1: "falsyStr x = (x = None \<or> x = Some [])"
    by (simp add: falsyStr_def split: option.split)
  have f2: "falsyNum n = (n = None \<or> n = Some 0)"
    by (simp add: falsyNum_def split: option.split)
  have f3: "parseInt (strOr None ''0'') = Some 0" "parseInt (strOr (Some ''0'') ''0'') = Some 0"
    "parseInt (strOr (Some ''-1'') ''0'') = Some (- 1)"
    by (simp_all add: strOr_def parseInt_examples)
  let "(if _ then ?RA else ?RB) \<and> _" = ?thesis
  have m: "if ?c then ?RA else ?RB"
  proof (cases ?c)
    case True
    show ?thesis
      by (subst if_P [OF True]) (rule rej [OF True])
  next
    case False
    show ?thesis
      by (subst if_not_P [OF False]) (rule acc [OF False])
  qed
  show ?thesis
    by (intro conjI m f1 f2 f3)
qed

text \<open>
  Witness for C6: scenario S7, a handshake without \<open>websocketUrl\<close>, is rejected, and
  the handshake of scenario S1 is accepted: the socket is attached at position 1 to the
  Room of league 12345, and no downstream socket is closed.
\<close>

theorem handshake_rejected_witness:
  "safeNumber (parseInt (strOr (q_draftPosition (userA\<lparr>q_websocketUrl := None\<rparr>)) ''0''))
   \<and> falsyStr (q_websocketUrl (userA\<lparr>q_websocketUrl := None\<rparr>))
   \<and> onConnection anyUrl 10 ''client-a'' (userA\<lparr>q_websocketUrl := None\<rparr>) start
       = closeClient 10 1008
           ''Missing required parameters: leagueId, draftPosition, websocketUrl'' start
   \<and> safeNumber (parseInt (strOr (q_draftPosition userA) ''0''))
   \<and> \<not> falsyStr (q_leagueId userA)
   \<and> \<not> falsyNum (parseInt (strOr (q_draftPosition userA) ''0''))
   \<and> \<not> falsyStr (q_websocketUrl userA)
   \<and> downstream (onConnection anyUrl 10 ''client-a'' userA start) = downstream start
   \<and> (\<exists>r es. trace (onConnection anyUrl 10 ''client-a'' userA start)
                = trace start @ es
                  @ [DownSend 10 (room_joined
                       (roomId (roomHeap (onConnection anyUrl 10 ''client-a'' userA start) r))
                       False
                       (length (clients (roomHeap (onConnection anyUrl 10 ''client-a'' userA start) r)))
                       1)]
            \<and> filter isDownClose es = []
            \<and> rooms (onConnection anyUrl 10 ''client-a'' userA start) ''12345'' = Some r
            \<and> session (onConnection anyUrl 10 ''client-a'' userA start) 10 = Some (''client-a'', r)
            \<and> map_of (clients (roomHeap (onConnection anyUrl 10 ''client-a'' userA start) r)) 10
                = Some (''client-a'', 1))"
proof -
  have p: "parseInt (strOr (q_draftPosition (userA\<lparr>q_websocketUrl := None\<rparr>)) ''0'') = Some 1"
    "parseInt (strOr (q_draftPosition userA) ''0'') = Some 1"
    by (simp_all add: userA_def strOr_def parseInt_examples)
  have h: "safeNumber (parseInt (strOr (q_draftPosition (userA\<lparr>q_websocketUrl := None\<rparr>)) ''0''))"
    "safeNumber (parseInt (strOr (q_draftPosition userA) ''0''))"
    by (simp_all add: p safeNumber_def isSafeInteger_def)
  have f: "falsyStr (q_websocketUrl (userA\<lparr>q_websocketUrl := None\<rparr>))"
    by (simp add: falsyStr_def)
  have g: "\<not> falsyStr (q_leagueId userA)"
    "\<not> falsyNum (parseInt (strOr (q_draftPosition userA) ''0''))"
    "\<not> falsyStr (q_websocketUrl userA)"
    "q_leagueId userA = Some ''12345''"
    by (simp_all add: p falsyNum_def) (simp_all add: userA_def falsyStr_def)
  have r: "onConnection anyUrl 10 ''client-a'' (userA\<lparr>q_websocketUrl := None\<rparr>) start
       = closeClient 10 1008
           ''Missing required parameters: leagueId, draftPosition, websocketUrl'' start"
    using f handshake_rejected_iff_falsy [OF h(1), of anyUrl 10 "''client-a''" start,
        THEN conjunct1]
    by simp
  have a: "downstream (onConnection anyUrl 10 ''client-a'' userA start) = downstream start
   \<and> (\<exists>r es. trace (onConnection anyUrl 10 ''client-a'' userA start)
                = trace start @ es
                  @ [DownSend 10 (room_joined
                       (roomId (roomHeap (onConnection anyUrl 10 ''client-a'' userA start) r))
                       False
                       (length (clients (roomHeap (onConnection anyUrl 10 ''client-a'' userA start) r)))
                       1)]
            \<and> filter isDownClose es = []
            \<and> rooms (onConnection anyUrl 10 ''client-a'' userA start) ''12345'' = Some r
            \<and> session (onConnection anyUrl 10 ''client-a'' userA start) 10 = Some (''client-a'', r)
            \<and> map_of (clients (roomHeap (onConnection anyUrl 10 ''client-a'' userA start) r)) 10
                = Some (''client-a'', 1))"
    using g handshake_rejected_iff_falsy [OF h(2), of anyUrl 10 "''client-a''" start,
        THEN conjunct1]
    by (auto simp: p)
  show ?thesis
    using h f r g(1-3) a by blast
qed

text \<open>
  Counterexample to C6 as stated: the draft position \<open>-1\<close> is not an integer of 1 or
  more, yet the handshake is accepted: no close is sent, a Room is created for the
  league with primary position \<open>-1\<close>, the link is dialed and the client gets
  \<open>room_joined\<close>.
\<close>

theorem negative_draftPosition_accepted:
  "onConnection anyUrl 10 ''client-a'' (userA\<lparr>q_draftPosition := Some ''-1''\<rparr>) start
     = start\<lparr>rooms := [''12345'' \<mapsto> 0], clientConnections := [''client-a'' \<mapsto> (10, 0)],
         roomHeap := (roomHeap start)(0 := (newRoom ''12345'' (- 1) ''wss://u'' ''user-a'' 5 10000 0)
                 \<lparr>yahooWs := Some 0, clients := [(10, ''client-a'', - 1)],
                  isConnectingToYahoo := True\<rparr>),
         upstream := (upstream start)(0 := CONNECTING), owner := (owner start)(0 := 0),
         session := [10 \<mapsto> (''client-a'', 0)], nextRoom := 1, nextLink := 1,
         trace := [Dial 0 ''wss://u'', DownSend 10 (room_joined ''12345'' False 1 (- 1))]\<rparr>"
  by (simp add: userA_def anyUrl_def app_defs room_defs parseInt_examples Let_def)

section \<open>The status snapshot\<close>

lemma getStatus_yahooConnected:
  "st_yahooConnected (getStatus r s)
     = (case yahooWs (roomHeap s r) of None \<Rightarrow> JSNull | Some l \<Rightarrow> JSBool (upstream s l = OPEN))"
  by (simp add: getStatus_def Let_def)

text \<open>
  C9. The code at the failing input. A second client joins the Room of \<open>dialing\<close>
  while its first dial is in progress: the connecting link is closed and dropped and,
  the dial flag being still set, none is dialed, so the Room holds no link. The status
  of the Room, as \<open>GET /rooms/12345/status\<close> returns it, has \<open>yahooConnected\<close> equal to
  \<open>null\<close>, which is not a boolean.
\<close>

theorem status_yahooConnected_null:
  "getRoomStatus ''12345'' (run anyUrl dialing [Connection 11 ''client-b'' userB])
     = Inr \<lparr>st_roomId = ''12345'', st_leagueId = ''12345'', st_draftPosition = 1,
            st_platformUserId = ''user-a'', st_clientsCount = 2,
            st_clientDraftPositions = [1, 3], st_yahooConnected = JSNull,
            st_hasJoined = False, st_lastHeartbeat = 0, st_reconnectAttempts = 0,
            st_isIntentionalDisconnect = False\<rparr>"
  by (simp add: dialing_state userB_def anyUrl_def app_defs room_defs parseInt_examples Let_def)

end
